theory Spec2Isabelle
  imports Main "HOL-Library.List_Lexorder"
begin

section \<open>JavaScript strings and values\<close>

text \<open>
  The server is one file, \<^verbatim>\<open>rest_server.mjs\<close>: five Express handlers over a SQLite
  database. A JavaScript string is a sequence of UTF-16 code units, each held here as a
  natural number; \<open>lit\<close> turns an ASCII literal of the source into that form.
\<close>

type_synonym jsstring = "nat list"

abbreviation (input) lit :: "string \<Rightarrow> jsstring" where
  "lit s \<equiv> map of_char s"

text \<open>
  The code units that \<^verbatim>\<open>String.prototype.trim\<close> and \<^verbatim>\<open>parseInt\<close> skip: ECMAScript's
  WhiteSpace (tab, VT, FF, the byte order mark and the space separators) and
  LineTerminator (LF, CR, U+2028, U+2029).
\<close>

definition is_whitespace :: "nat \<Rightarrow> bool" where
  "is_whitespace c \<longleftrightarrow>
     c \<in> {9, 10, 11, 12, 13, 32, 160, 5760, 8232, 8233, 8239, 8287, 12288, 65279}
     \<or> (8192 \<le> c \<and> c \<le> 8202)"

definition trim_start :: "jsstring \<Rightarrow> jsstring" where
  "trim_start s = dropWhile is_whitespace s"

definition trim :: "jsstring \<Rightarrow> jsstring" where
  "trim s = rev (dropWhile is_whitespace (rev (dropWhile is_whitespace s)))"

text \<open>
  \<^verbatim>\<open>s.split(',')\<close>: the pieces between the commas (code unit 44), empty pieces kept;
  the empty string gives one empty piece.
\<close>

fun split_comma :: "jsstring \<Rightarrow> jsstring list" where
  "split_comma [] = [[]]"
| "split_comma (c # cs) =
     (if c = 44 then [] # split_comma cs
      else (case split_comma cs of
              [] \<Rightarrow> [[c]]
            | w # ws \<Rightarrow> (c # w) # ws))"

text \<open>\<^verbatim>\<open>xs.join(sep)\<close> on an array of strings.\<close>

fun join :: "jsstring \<Rightarrow> jsstring list \<Rightarrow> jsstring" where
  "join sep [] = []"
| "join sep [x] = x"
| "join sep (x # y # ys) = x @ sep @ join sep (y # ys)"

text \<open>
  The values that reach the handlers: what \<^verbatim>\<open>JSON.parse\<close> builds for a request body
  and what the query-string parser builds for \<^verbatim>\<open>req.query\<close> (strings, arrays and
  nested objects), and \<^verbatim>\<open>undefined\<close> for a property that is not there. A number is
  identified by the text \<^verbatim>\<open>Number.prototype.toString\<close> prints for it, which is all
  this program observes of a number it is given. An object lists its own properties,
  each key once.
\<close>

datatype jsval =
    Undefined
  | Null
  | Bool bool
  | Number jsstring
  | Str jsstring
  | Arr "jsval list"
  | Obj "(jsstring \<times> jsval) list"

datatype error = TypeError | StoreError

text \<open>Truthiness, as \<^verbatim>\<open>if (v)\<close> and \<^verbatim>\<open>v ? a : b\<close> test it.\<close>

fun truthy :: "jsval \<Rightarrow> bool" where
  "truthy Undefined = False"
| "truthy Null = False"
| "truthy (Bool b) = b"
| "truthy (Number t) = (t \<noteq> lit ''0'' \<and> t \<noteq> lit ''NaN'')"
| "truthy (Str s) = (s \<noteq> [])"
| "truthy (Arr xs) = True"
| "truthy (Obj kvs) = True"

text \<open>
  The conversion to a string that \<^verbatim>\<open>+\<close> with a string operand and \<^verbatim>\<open>parseInt\<close>
  apply. An array joins its elements with commas, \<^verbatim>\<open>undefined\<close> and \<^verbatim>\<open>null\<close>
  elements as empty text. A parsed object inherits \<^verbatim>\<open>Object.prototype.toString\<close>
  unless it has an own property \<^verbatim>\<open>toString\<close>: that one is data, not a function, the
  inherited \<^verbatim>\<open>valueOf\<close> returns the object itself, and the conversion throws a
  TypeError.
\<close>

fun to_string :: "jsval \<Rightarrow> error + jsstring"
  and join_elements :: "jsval list \<Rightarrow> error + jsstring" where
  "to_string Undefined = Inr (lit ''undefined'')"
| "to_string Null = Inr (lit ''null'')"
| "to_string (Bool b) = Inr (if b then lit ''true'' else lit ''false'')"
| "to_string (Number t) = Inr t"
| "to_string (Str s) = Inr s"
| "to_string (Arr xs) = join_elements xs"
| "to_string (Obj kvs) =
     (if lit ''toString'' \<in> fst ` set kvs then Inl TypeError
      else Inr (lit ''[object Object]''))"
| "join_elements [] = Inr []"
| "join_elements (x # xs) =
     (case (if x = Undefined \<or> x = Null then Inr [] else to_string x) of
        Inl e \<Rightarrow> Inl e
      | Inr s \<Rightarrow>
          (if xs = [] then Inr s
           else (case join_elements xs of
                   Inl e \<Rightarrow> Inl e
                 | Inr r \<Rightarrow> Inr (s @ lit '','' @ r))))"

subsection \<open>parseInt and the printing of its result\<close>

datatype parsed = NaN | Integer int

definition digit_value :: "nat \<Rightarrow> nat option" where
  "digit_value c =
     (if 48 \<le> c \<and> c \<le> 57 then Some (c - 48)
      else if 97 \<le> c \<and> c \<le> 122 then Some (c - 87)
      else if 65 \<le> c \<and> c \<le> 90 then Some (c - 55)
      else None)"

definition is_digit :: "nat \<Rightarrow> nat \<Rightarrow> bool" where
  "is_digit R c = (case digit_value c of None \<Rightarrow> False | Some d \<Rightarrow> d < R)"

definition digits_value :: "nat \<Rightarrow> jsstring \<Rightarrow> nat" where
  "digits_value R Z =
     foldl (\<lambda>acc c. acc * R + (case digit_value c of None \<Rightarrow> 0 | Some d \<Rightarrow> d)) 0 Z"

text \<open>
  \<^verbatim>\<open>parseInt(s)\<close> with no radix: skip leading white space, take a sign, take a
  \<^verbatim>\<open>0x\<close> or \<^verbatim>\<open>0X\<close> prefix (radix 16, else 10), read the longest run of digits of
  the radix, and ignore what follows. No digit at all gives \<^verbatim>\<open>NaN\<close>.
\<close>

definition parseInt :: "jsstring \<Rightarrow> parsed" where
  "parseInt s =
     (let S = trim_start s;
          negative = (S \<noteq> [] \<and> hd S = 45);
          S1 = (if S \<noteq> [] \<and> (hd S = 43 \<or> hd S = 45) then tl S else S);
          hex = (take 2 S1 = lit ''0x'' \<or> take 2 S1 = lit ''0X'');
          R = (if hex then 16 else 10);
          S2 = (if hex then drop 2 S1 else S1);
          Z = takeWhile (is_digit R) S2
      in if Z = [] then NaN
         else Integer ((if negative then - 1 else 1) * int (digits_value R Z)))"

fun digits :: "nat \<Rightarrow> jsstring" where
  "digits n = (if n < 10 then [48 + n] else digits (n div 10) @ [48 + n mod 10])"

declare digits.simps [simp del]

text \<open>
  How a template literal prints the number. Up to \<open>2^53 - 1\<close> in magnitude the number is
  the integer read and prints in decimal. Beyond, the engine rounds to a double and may
  print an exponent or \<^verbatim>\<open>Infinity\<close>; that text is the parameter \<open>big\<close>.
\<close>

definition number_text :: "(int \<Rightarrow> jsstring) \<Rightarrow> parsed \<Rightarrow> jsstring" where
  "number_text big p =
     (case p of
        NaN \<Rightarrow> lit ''NaN''
      | Integer n \<Rightarrow>
          (if \<bar>n\<bar> \<le> 2 ^ 53 - 1
           then (if n < 0 then lit ''-'' @ digits (nat (- n)) else digits (nat n))
           else big n))"

section \<open>Requests, responses and the database primitives\<close>

text \<open>
  \<^verbatim>\<open>req.query\<close> and \<^verbatim>\<open>req.body\<close> are objects read by property name; a property
  that is not there reads as \<^verbatim>\<open>undefined\<close>. A request whose body the JSON middleware
  did not parse can leave \<^verbatim>\<open>req.body\<close> itself undefined: that is \<open>None\<close> below,
  and reading a property of it throws.
\<close>

type_synonym jsobject = "jsstring \<Rightarrow> jsval option"

definition get_prop :: "jsobject \<Rightarrow> jsstring \<Rightarrow> jsval" where
  "get_prop obj k = (case obj k of None \<Rightarrow> Undefined | Some v \<Rightarrow> v)"

text \<open>A row of a result set: the selected columns by name.\<close>

type_synonym row = "(jsstring \<times> jsval) list"

definition column :: "row \<Rightarrow> jsstring \<Rightarrow> jsval" where
  "column r k = (case map_of r k of None \<Rightarrow> Undefined | Some v \<Rightarrow> v)"

text \<open>
  \<^verbatim>\<open>dbSelect(query, params)\<close> and \<^verbatim>\<open>dbRun(query, params)\<close> wrap \<^verbatim>\<open>db.all\<close> and
  \<^verbatim>\<open>db.run\<close>: the promise resolves with the rows (or with nothing, the database
  changed) or rejects with the engine's error. SQLite is not part of the server, so the
  handlers below take the two primitives as arguments, over a database state \<open>'db\<close>: a
  select reads the state, a run returns the new one, and a rejected statement leaves it
  as it was. One request runs from its first statement to its response with no other
  request in between, and every statement is answered: a store that never calls back
  leaves the request without a response, which no value below stands for.
\<close>

type_synonym 'db db_select = "'db \<Rightarrow> jsstring \<Rightarrow> jsval list \<Rightarrow> error + row list"

type_synonym 'db db_run = "'db \<Rightarrow> jsstring \<Rightarrow> jsval list \<Rightarrow> error + 'db"

datatype payload = Json jsval | Txt jsstring

type_synonym response = "nat \<times> payload"

section \<open>The query builders\<close>

text \<open>
  The block each list filter repeats:
  \<^verbatim>\<open>let codes = req.query.code.split(',').map(c => c.trim());\<close>
  \<^verbatim>\<open>let placeholders = codes.map(() => '?').join(',');\<close>
  Only a string has a \<^verbatim>\<open>split\<close> method: on an array or an object (a repeated or a
  bracketed query parameter) the call throws a TypeError.
\<close>

definition split_trim :: "jsval \<Rightarrow> error + jsstring list" where
  "split_trim v = (case v of Str s \<Rightarrow> Inr (map trim (split_comma s)) | _ \<Rightarrow> Inl TypeError)"

definition placeholders :: "jsstring list \<Rightarrow> jsstring" where
  "placeholders codes = join (lit '','') (map (\<lambda>c. lit ''?'') codes)"

subsection \<open>GET /codes\<close>

definition codes_select :: jsstring where
  "codes_select = lit ''SELECT code, incident_type FROM Codes''"

definition codes_query :: "jsobject \<Rightarrow> error + jsstring \<times> jsval list" where
  "codes_query q =
     (let query = codes_select;
          code = get_prop q (lit ''code'')
      in case (if truthy code
               then (case split_trim code of
                       Inl e \<Rightarrow> Inl e
                     | Inr codes \<Rightarrow>
                         Inr (query @ lit '' WHERE code IN ('' @ placeholders codes @ lit '')'',
                              map Str codes))
               else Inr (query, [])) of
           Inl e \<Rightarrow> Inl e
         | Inr (query, params) \<Rightarrow> Inr (query @ lit '' ORDER BY code'', params))"

definition get_codes :: "'db db_select \<Rightarrow> 'db \<Rightarrow> jsobject \<Rightarrow> response" where
  "get_codes dbSelect db q =
     (case codes_query q of
        Inl e \<Rightarrow> (500, Txt (lit ''Error retrieving codes''))
      | Inr (query, params) \<Rightarrow>
          (case dbSelect db query params of
             Inl e \<Rightarrow> (500, Txt (lit ''Error retrieving codes''))
           | Inr rows \<Rightarrow>
               (200, Json (Arr (map (\<lambda>row. Obj [(lit ''code'', column row (lit ''code'')),
                                                (lit ''type'', column row (lit ''incident_type''))])
                                    rows)))))"

subsection \<open>GET /neighborhoods\<close>

definition neighborhoods_select :: jsstring where
  "neighborhoods_select =
     lit ''SELECT neighborhood_number, neighborhood_name FROM Neighborhoods''"

definition neighborhoods_query :: "jsobject \<Rightarrow> error + jsstring \<times> jsval list" where
  "neighborhoods_query q =
     (let query = neighborhoods_select;
          id = get_prop q (lit ''id'')
      in case (if truthy id
               then (case split_trim id of
                       Inl e \<Rightarrow> Inl e
                     | Inr ids \<Rightarrow>
                         Inr (query @ lit '' WHERE neighborhood_number IN ('' @ placeholders ids
                                @ lit '')'',
                              map Str ids))
               else Inr (query, [])) of
           Inl e \<Rightarrow> Inl e
         | Inr (query, params) \<Rightarrow> Inr (query @ lit '' ORDER BY neighborhood_number'', params))"

definition get_neighborhoods :: "'db db_select \<Rightarrow> 'db \<Rightarrow> jsobject \<Rightarrow> response" where
  "get_neighborhoods dbSelect db q =
     (case neighborhoods_query q of
        Inl e \<Rightarrow> (500, Txt (lit ''Error retrieving neighborhoods''))
      | Inr (query, params) \<Rightarrow>
          (case dbSelect db query params of
             Inl e \<Rightarrow> (500, Txt (lit ''Error retrieving neighborhoods''))
           | Inr rows \<Rightarrow>
               (200, Json (Arr (map (\<lambda>row. Obj [(lit ''id'', column row (lit ''neighborhood_number'')),
                                                (lit ''name'', column row (lit ''neighborhood_name''))])
                                    rows)))))"

subsection \<open>GET /incidents\<close>

definition incidents_select :: jsstring where
  "incidents_select = lit
     (''\<newline>''
      @ ''            SELECT case_number, \<newline>''
      @ ''                   DATE(date_time) as date, \<newline>''
      @ ''                   TIME(date_time) as time,\<newline>''
      @ ''                   code, \<newline>''
      @ ''                   incident, \<newline>''
      @ ''                   police_grid, \<newline>''
      @ ''                   neighborhood_number, \<newline>''
      @ ''                   block\<newline>''
      @ ''            FROM Incidents\<newline>''
      @ ''        '')"

text \<open>
  A date bound pushes one comparison and binds the value as it came:
  \<^verbatim>\<open>whereClauses.push('date(date_time) >= ?'); params.push(req.query.start_date);\<close>
\<close>

definition date_filter ::
  "jsstring \<Rightarrow> jsval \<Rightarrow> jsstring list \<times> jsval list \<Rightarrow> jsstring list \<times> jsval list" where
  "date_filter clause v acc =
     (case acc of (whereClauses, params) \<Rightarrow>
        if truthy v then (whereClauses @ [clause], params @ [v]) else (whereClauses, params))"

text \<open>
  A list filter pushes one \<^verbatim>\<open>IN\<close> clause on the given column and binds the pieces:
  \<^verbatim>\<open>whereClauses.push(`code IN (${placeholders})`); params.push(...codes);\<close>
\<close>

definition list_filter ::
  "jsstring \<Rightarrow> jsval \<Rightarrow> jsstring list \<times> jsval list \<Rightarrow> error + jsstring list \<times> jsval list" where
  "list_filter col v acc =
     (case acc of (whereClauses, params) \<Rightarrow>
        if truthy v
        then (case split_trim v of
                Inl e \<Rightarrow> Inl e
              | Inr codes \<Rightarrow>
                  Inr (whereClauses @ [col @ lit '' IN ('' @ placeholders codes @ lit '')''],
                       params @ map Str codes))
        else Inr (whereClauses, params))"

text \<open>\<^verbatim>\<open>let limit = req.query.limit ? parseInt(req.query.limit) : 1000;\<close>\<close>

definition limit_of :: "jsval \<Rightarrow> error + parsed" where
  "limit_of v =
     (if truthy v
      then (case to_string v of Inl e \<Rightarrow> Inl e | Inr s \<Rightarrow> Inr (parseInt s))
      else Inr (Integer 1000))"

definition incidents_query ::
  "(int \<Rightarrow> jsstring) \<Rightarrow> jsobject \<Rightarrow> error + jsstring \<times> jsval list" where
  "incidents_query big q =
     (let acc1 = date_filter (lit ''date(date_time) >= ?'') (get_prop q (lit ''start_date'')) ([], []);
          acc2 = date_filter (lit ''date(date_time) <= ?'') (get_prop q (lit ''end_date'')) acc1
      in case list_filter (lit ''code'') (get_prop q (lit ''code'')) acc2 of
           Inl e \<Rightarrow> Inl e
         | Inr acc3 \<Rightarrow>
      (case list_filter (lit ''police_grid'') (get_prop q (lit ''grid'')) acc3 of
           Inl e \<Rightarrow> Inl e
         | Inr acc4 \<Rightarrow>
      (case list_filter (lit ''neighborhood_number'') (get_prop q (lit ''neighborhood'')) acc4 of
           Inl e \<Rightarrow> Inl e
         | Inr (whereClauses, params) \<Rightarrow>
      (case limit_of (get_prop q (lit ''limit'')) of
           Inl e \<Rightarrow> Inl e
         | Inr limit \<Rightarrow>
             Inr (incidents_select
                  @ (if length whereClauses > 0
                     then lit '' WHERE '' @ join (lit '' AND '') whereClauses else [])
                  @ lit '' ORDER BY date_time DESC''
                  @ lit '' LIMIT '' @ number_text big limit,
                  params)))))"

definition incident_fields :: "jsstring list" where
  "incident_fields =
     [lit ''case_number'', lit ''date'', lit ''time'', lit ''code'', lit ''incident'',
      lit ''police_grid'', lit ''neighborhood_number'', lit ''block'']"

definition get_incidents ::
  "(int \<Rightarrow> jsstring) \<Rightarrow> 'db db_select \<Rightarrow> 'db \<Rightarrow> jsobject \<Rightarrow> response" where
  "get_incidents big dbSelect db q =
     (case incidents_query big q of
        Inl e \<Rightarrow> (500, Txt (lit ''Error retrieving incidents''))
      | Inr (query, params) \<Rightarrow>
          (case dbSelect db query params of
             Inl e \<Rightarrow> (500, Txt (lit ''Error retrieving incidents''))
           | Inr rows \<Rightarrow>
               (200, Json (Arr (map (\<lambda>row. Obj (map (\<lambda>k. (k, column row k)) incident_fields))
                                    rows)))))"

section \<open>The write handlers\<close>

definition checkQuery :: jsstring where
  "checkQuery = lit ''SELECT case_number FROM Incidents WHERE case_number = ?''"

definition insertQuery :: jsstring where
  "insertQuery = lit
     (''\<newline>''
      @ ''            INSERT INTO Incidents (case_number, date_time, code, incident, police_grid, neighborhood_number, block)\<newline>''
      @ ''            VALUES (?, ?, ?, ?, ?, ?, ?)\<newline>''
      @ ''        '')"

definition deleteQuery :: jsstring where
  "deleteQuery = lit ''DELETE FROM Incidents WHERE case_number = ?''"

text \<open>
  \<^verbatim>\<open>let dateTime = req.body.date + 'T' + req.body.time;\<close>
  One operand of each \<^verbatim>\<open>+\<close> is a string, so both are concatenations after
  conversion to strings, the date first.
\<close>

definition dateTime_of :: "jsval \<Rightarrow> jsval \<Rightarrow> error + jsstring" where
  "dateTime_of date time =
     (case to_string date of
        Inl e \<Rightarrow> Inl e
      | Inr d \<Rightarrow> (case to_string time of Inl e \<Rightarrow> Inl e | Inr t \<Rightarrow> Inr (d @ lit ''T'' @ t)))"

subsection \<open>PUT /new-incident\<close>

definition put_new_incident ::
  "'db db_select \<Rightarrow> 'db db_run \<Rightarrow> 'db \<Rightarrow> jsobject option \<Rightarrow> response \<times> 'db" where
  "put_new_incident dbSelect dbRun db req_body =
     (case req_body of
        None \<Rightarrow> ((500, Txt (lit ''Error inserting incident'')), db)
      | Some body \<Rightarrow>
          (case dbSelect db checkQuery [get_prop body (lit ''case_number'')] of
             Inl e \<Rightarrow> ((500, Txt (lit ''Error inserting incident'')), db)
           | Inr existing \<Rightarrow>
               if length existing > 0
               then ((500, Txt (lit ''Case number already exists'')), db)
               else (case dateTime_of (get_prop body (lit ''date'')) (get_prop body (lit ''time'')) of
                       Inl e \<Rightarrow> ((500, Txt (lit ''Error inserting incident'')), db)
                     | Inr dateTime \<Rightarrow>
                         (case dbRun db insertQuery
                                 [get_prop body (lit ''case_number''),
                                  Str dateTime,
                                  get_prop body (lit ''code''),
                                  get_prop body (lit ''incident''),
                                  get_prop body (lit ''police_grid''),
                                  get_prop body (lit ''neighborhood_number''),
                                  get_prop body (lit ''block'')] of
                            Inl e \<Rightarrow> ((500, Txt (lit ''Error inserting incident'')), db)
                          | Inr db' \<Rightarrow> ((200, Txt (lit ''OK'')), db')))))"

subsection \<open>DELETE /remove-incident\<close>

definition delete_remove_incident ::
  "'db db_select \<Rightarrow> 'db db_run \<Rightarrow> 'db \<Rightarrow> jsobject option \<Rightarrow> response \<times> 'db" where
  "delete_remove_incident dbSelect dbRun db req_body =
     (case req_body of
        None \<Rightarrow> ((500, Txt (lit ''Error deleting incident'')), db)
      | Some body \<Rightarrow>
          (case dbSelect db checkQuery [get_prop body (lit ''case_number'')] of
             Inl e \<Rightarrow> ((500, Txt (lit ''Error deleting incident'')), db)
           | Inr existing \<Rightarrow>
               if length existing = 0
               then ((500, Txt (lit ''Case number does not exist'')), db)
               else (case dbRun db deleteQuery [get_prop body (lit ''case_number'')] of
                       Inl e \<Rightarrow> ((500, Txt (lit ''Error deleting incident'')), db)
                     | Inr db' \<Rightarrow> ((200, Txt (lit ''OK'')), db'))))"

section \<open>A store to run the handlers against\<close>

text \<open>
  A small stand-in for the database, used where a statement below is run on concrete
  requests: the Incidents table as a list of rows, answering the statements the write
  handlers send and the unfiltered incident feed, and rejecting every other statement.
  Its \<^verbatim>\<open>case_number = ?\<close> is equality with a bound value other than NULL; its
  timestamps are text, ordered code unit by code unit, and its \<^verbatim>\<open>DATE()\<close> and
  \<^verbatim>\<open>TIME()\<close> cut the text at the first \<^verbatim>\<open>T\<close>, as SQLite's do on a timestamp
  written \<^verbatim>\<open>YYYY-MM-DDTHH:MM:SS\<close>.
\<close>

record incident_row =
  row_case_number :: jsval
  row_date_time :: jsstring
  row_code :: jsval
  row_incident :: jsval
  row_police_grid :: jsval
  row_neighborhood_number :: jsval
  row_block :: jsval

definition mock_matches :: "jsval \<Rightarrow> incident_row \<Rightarrow> bool" where
  "mock_matches v r \<longleftrightarrow> row_case_number r = v \<and> v \<noteq> Null \<and> v \<noteq> Undefined"

fun str_less :: "jsstring \<Rightarrow> jsstring \<Rightarrow> bool" where
  "str_less [] [] = False"
| "str_less [] (y # ys) = True"
| "str_less (x # xs) [] = False"
| "str_less (x # xs) (y # ys) = (x < y \<or> (x = y \<and> str_less xs ys))"

fun insert_desc :: "incident_row \<Rightarrow> incident_row list \<Rightarrow> incident_row list" where
  "insert_desc r [] = [r]"
| "insert_desc r (x # xs) =
     (if str_less (row_date_time r) (row_date_time x) then x # insert_desc r xs
      else r # x # xs)"

definition sort_desc :: "incident_row list \<Rightarrow> incident_row list" where
  "sort_desc rs = foldr insert_desc rs []"

definition feed_row :: "incident_row \<Rightarrow> row" where
  "feed_row r =
     [(lit ''case_number'', row_case_number r),
      (lit ''date'', Str (takeWhile (\<lambda>c. c \<noteq> 84) (row_date_time r))),
      (lit ''time'', Str (drop 1 (dropWhile (\<lambda>c. c \<noteq> 84) (row_date_time r)))),
      (lit ''code'', row_code r),
      (lit ''incident'', row_incident r),
      (lit ''police_grid'', row_police_grid r),
      (lit ''neighborhood_number'', row_neighborhood_number r),
      (lit ''block'', row_block r)]"

definition mock_select :: "incident_row list db_select" where
  "mock_select tbl query params =
     (if query = checkQuery
      then (case params of
              [v] \<Rightarrow> Inr (map (\<lambda>r. [(lit ''case_number'', row_case_number r)])
                            (filter (mock_matches v) tbl))
            | _ \<Rightarrow> Inl StoreError)
      else if query = incidents_select @ lit '' ORDER BY date_time DESC LIMIT 1000''
              \<and> params = []
      then Inr (map feed_row (take 1000 (sort_desc tbl)))
      else Inl StoreError)"

definition mock_run :: "incident_row list db_run" where
  "mock_run tbl query params =
     (if query = insertQuery
      then (case params of
              [cn, Str dt, c, i, g, n, b] \<Rightarrow>
                Inr (tbl @ [\<lparr>row_case_number = cn, row_date_time = dt, row_code = c,
                              row_incident = i, row_police_grid = g,
                              row_neighborhood_number = n, row_block = b\<rparr>])
            | _ \<Rightarrow> Inl StoreError)
      else if query = deleteQuery
      then (case params of
              [v] \<Rightarrow> Inr (filter (\<lambda>r. \<not> mock_matches v r) tbl)
            | _ \<Rightarrow> Inl StoreError)
      else Inl StoreError)"

text \<open>One stored incident, and a request body with a case number of its own.\<close>

definition stored_row :: incident_row where
  "stored_row =
     \<lparr>row_case_number = Str (lit ''23000001''),
      row_date_time = lit ''2023-05-01T08:15:00'',
      row_code = Number (lit ''600''),
      row_incident = Str (lit ''Theft''),
      row_police_grid = Number (lit ''87''),
      row_neighborhood_number = Number (lit ''7''),
      row_block = Str (lit ''98X UNIVERSITY AV W'')\<rparr>"

definition new_body :: jsobject where
  "new_body =
     [lit ''case_number'' \<mapsto> Str (lit ''24000002''),
      lit ''date'' \<mapsto> Str (lit ''2024-01-02''),
      lit ''time'' \<mapsto> Str (lit ''10:30:00''),
      lit ''code'' \<mapsto> Number (lit ''700''),
      lit ''incident'' \<mapsto> Str (lit ''Auto Theft''),
      lit ''police_grid'' \<mapsto> Number (lit ''95''),
      lit ''neighborhood_number'' \<mapsto> Number (lit ''4''),
      lit ''block'' \<mapsto> Str (lit ''79X 6 ST E'')]"

definition new_row :: incident_row where
  "new_row =
     \<lparr>row_case_number = Str (lit ''24000002''),
      row_date_time = lit ''2024-01-02T10:30:00'',
      row_code = Number (lit ''700''),
      row_incident = Str (lit ''Auto Theft''),
      row_police_grid = Number (lit ''95''),
      row_neighborhood_number = Number (lit ''4''),
      row_block = Str (lit ''79X 6 ST E'')\<rparr>"

definition existing_body :: jsobject where
  "existing_body = [lit ''case_number'' \<mapsto> Str (lit ''23000001'')]"

text \<open>
  The Codes table likewise, kept in code order: it answers the unfiltered statement of
  GET /codes.
\<close>

definition mock_codes_select :: "row list db_select" where
  "mock_codes_select tbl query params =
     (if query = lit ''SELECT code, incident_type FROM Codes ORDER BY code'' \<and> params = []
      then Inr tbl else Inl StoreError)"

definition codes_table :: "row list" where
  "codes_table =
     [[(lit ''code'', Number (lit ''100'')), (lit ''incident_type'', Str (lit ''Murder''))],
      [(lit ''code'', Number (lit ''600'')), (lit ''incident_type'', Str (lit ''Theft''))]]"

text \<open>
  An engine that prints every integer in decimal, for the \<open>big\<close> of requests whose limit
  stays far below \<open>2^53\<close>.
\<close>

definition decimal :: "int \<Rightarrow> jsstring" where
  "decimal n = (if n < 0 then lit ''-'' @ digits (nat (- n)) else digits (nat n))"

section \<open>What the builders produce, stated on the filters\<close>

text \<open>
  The filter query builder described on its inputs, to compare with the statements the
  handlers assemble. The elements of a list filter are the trimmed pieces of its value,
  none when the filter is absent or empty; a filter with elements gives one \<^verbatim>\<open>IN\<close>
  clause; a date bound that is present gives its comparison and binds its value.
\<close>

definition elements :: "jsval \<Rightarrow> jsstring list" where
  "elements v = (case v of Str s \<Rightarrow> if s = [] then [] else map trim (split_comma s) | _ \<Rightarrow> [])"

definition in_clause :: "jsstring \<Rightarrow> jsstring list \<Rightarrow> jsstring list" where
  "in_clause col es =
     (if es = [] then [] else [col @ lit '' IN ('' @ placeholders es @ lit '')''])"

definition date_clause :: "jsstring \<Rightarrow> jsval \<Rightarrow> jsstring list" where
  "date_clause clause v = (if truthy v then [clause] else [])"

definition date_param :: "jsval \<Rightarrow> jsval list" where
  "date_param v = (if truthy v then [v] else [])"

definition filter_clauses :: "jsobject \<Rightarrow> jsstring list" where
  "filter_clauses q =
     date_clause (lit ''date(date_time) >= ?'') (get_prop q (lit ''start_date''))
     @ date_clause (lit ''date(date_time) <= ?'') (get_prop q (lit ''end_date''))
     @ in_clause (lit ''code'') (elements (get_prop q (lit ''code'')))
     @ in_clause (lit ''police_grid'') (elements (get_prop q (lit ''grid'')))
     @ in_clause (lit ''neighborhood_number'') (elements (get_prop q (lit ''neighborhood'')))"

definition filter_params :: "jsobject \<Rightarrow> jsval list" where
  "filter_params q =
     date_param (get_prop q (lit ''start_date''))
     @ date_param (get_prop q (lit ''end_date''))
     @ map Str (elements (get_prop q (lit ''code'')))
     @ map Str (elements (get_prop q (lit ''grid'')))
     @ map Str (elements (get_prop q (lit ''neighborhood'')))"

definition where_text :: "jsstring list \<Rightarrow> jsstring" where
  "where_text clauses =
     (if clauses = [] then [] else lit '' WHERE '' @ join (lit '' AND '') clauses)"

text \<open>A list filter the builder can split: a string, or nothing that counts as present.\<close>

definition string_or_absent :: "jsval \<Rightarrow> bool" where
  "string_or_absent v \<longleftrightarrow> (case v of Str s \<Rightarrow> True | _ \<Rightarrow> \<not> truthy v)"

text \<open>
  The shape of a list filter, which is all the statement text may depend on: absent (or
  empty), a string of so many comma-separated pieces, or a value that is not a string.
\<close>

datatype shape = Absent | Elements nat | NotAString

definition list_shape :: "jsval \<Rightarrow> shape" where
  "list_shape v =
     (if \<not> truthy v then Absent
      else (case v of Str s \<Rightarrow> Elements (length (split_comma s)) | _ \<Rightarrow> NotAString))"

definition same_shape :: "jsobject \<Rightarrow> jsobject \<Rightarrow> bool" where
  "same_shape q1 q2 \<longleftrightarrow>
     truthy (get_prop q1 (lit ''start_date'')) = truthy (get_prop q2 (lit ''start_date''))
   \<and> truthy (get_prop q1 (lit ''end_date'')) = truthy (get_prop q2 (lit ''end_date''))
   \<and> list_shape (get_prop q1 (lit ''code'')) = list_shape (get_prop q2 (lit ''code''))
   \<and> list_shape (get_prop q1 (lit ''grid'')) = list_shape (get_prop q2 (lit ''grid''))
   \<and> list_shape (get_prop q1 (lit ''neighborhood''))
       = list_shape (get_prop q2 (lit ''neighborhood''))
   \<and> list_shape (get_prop q1 (lit ''id'')) = list_shape (get_prop q2 (lit ''id''))"

text \<open>Two requests whose limit parameters read as the same number (or both throw).\<close>

definition same_limit :: "jsobject \<Rightarrow> jsobject \<Rightarrow> bool" where
  "same_limit q1 q2 \<longleftrightarrow>
     limit_of (get_prop q1 (lit ''limit'')) = limit_of (get_prop q2 (lit ''limit''))"

text \<open>The statement text a builder produced, if it did not throw.\<close>

definition built_text :: "error + jsstring \<times> jsval list \<Rightarrow> jsstring option" where
  "built_text r = (case r of Inl e \<Rightarrow> None | Inr (query, params) \<Rightarrow> Some query)"

section \<open>The store\<close>

text \<open>
  Modelled from the spec: the relational store, which is SQLite and not part of the
  source (the spec's two data access primitives, a parameterized read returning rows and
  a parameterized write). The model gives each statement the handlers send the meaning
  the spec states for it: the reads of Codes and Neighborhoods return the selected rows
  by ascending identifier; the incident feed returns the selected rows by descending
  timestamp, cut at the limit, with the stored timestamp split into a date and a time;
  the existence check returns the rows of Incidents that satisfy its condition; the
  insert adds a row holding the seven bound values; the delete removes the rows that
  satisfy its condition and no others. A statement is recognised by its text, which is
  written out here on its own and not taken from the handlers; any other text is
  rejected.

  Two things are left as parameters of the engine, and the properties proved on it hold
  for every choice of them: which rows a \<^verbatim>\<open>WHERE\<close> condition selects for given bound
  values (SQLite compares under the affinity of the column), and what \<^verbatim>\<open>DATE()\<close> and
  \<^verbatim>\<open>TIME()\<close> return for a timestamp outside the two forms read below. The constraints
  of the schema (a unique case number) are not modelled.
\<close>

record code_row =
  code_no :: int
  code_type :: jsstring

record neighborhood_row =
  neighborhood_no :: int
  neighborhood_label :: jsstring

record database =
  db_codes :: "code_row list"
  db_neighborhoods :: "neighborhood_row list"
  db_incidents :: "incident_row list"

record sqlite =
  where_codes :: "jsstring \<Rightarrow> jsval list \<Rightarrow> code_row \<Rightarrow> bool"
  where_neighborhoods :: "jsstring \<Rightarrow> jsval list \<Rightarrow> neighborhood_row \<Rightarrow> bool"
  where_incidents :: "jsstring \<Rightarrow> jsval list \<Rightarrow> incident_row \<Rightarrow> bool"
  date_other :: "jsstring \<Rightarrow> jsval"
  time_other :: "jsstring \<Rightarrow> jsval"

text \<open>
  Modelled from the spec: the split of the stored timestamp. The forms read are
  \<^verbatim>\<open>YYYY-MM-DDTHH:MM:SS\<close> and \<^verbatim>\<open>YYYY-MM-DDTHH:MM\<close>, month 01 to 12, day 01 to 28
  (a later day can be carried into the next month and is left to \<open>date_other\<close>), hour
  00 to 23, minute and second 00 to 59. The date is given back as written, the time as
  \<^verbatim>\<open>HH:MM:SS\<close>, the seconds \<^verbatim>\<open>00\<close> when there were none.
\<close>

definition is_dec :: "nat \<Rightarrow> bool" where
  "is_dec c \<longleftrightarrow> 48 \<le> c \<and> c \<le> 57"

definition two_digits :: "jsstring \<Rightarrow> nat option" where
  "two_digits s =
     (case s of
        [a, b] \<Rightarrow> if is_dec a \<and> is_dec b then Some (10 * (a - 48) + (b - 48)) else None
      | _ \<Rightarrow> None)"

definition in_range :: "nat \<Rightarrow> nat \<Rightarrow> jsstring \<Rightarrow> bool" where
  "in_range lo hi s = (case two_digits s of None \<Rightarrow> False | Some n \<Rightarrow> lo \<le> n \<and> n \<le> hi)"

definition valid_date :: "jsstring \<Rightarrow> bool" where
  "valid_date d \<longleftrightarrow>
     length d = 10 \<and> list_all is_dec (take 4 d)
     \<and> take 1 (drop 4 d) = lit ''-'' \<and> in_range 1 12 (take 2 (drop 5 d))
     \<and> take 1 (drop 7 d) = lit ''-'' \<and> in_range 1 28 (drop 8 d)"

definition valid_hm :: "jsstring \<Rightarrow> bool" where
  "valid_hm t \<longleftrightarrow>
     length t = 5 \<and> in_range 0 23 (take 2 t)
     \<and> take 1 (drop 2 t) = lit '':'' \<and> in_range 0 59 (drop 3 t)"

definition valid_time :: "jsstring \<Rightarrow> bool" where
  "valid_time t \<longleftrightarrow>
     length t = 8 \<and> valid_hm (take 5 t)
     \<and> take 1 (drop 5 t) = lit '':'' \<and> in_range 0 59 (drop 6 t)"

definition read_timestamp :: "jsstring \<Rightarrow> (jsstring \<times> jsstring) option" where
  "read_timestamp dt =
     (let d = take 10 dt; t = drop 11 dt
      in if valid_date d \<and> take 1 (drop 10 dt) = lit ''T''
         then (if valid_time t then Some (d, t)
               else if valid_hm t then Some (d, t @ lit '':00'')
               else None)
         else None)"

definition sql_date :: "sqlite \<Rightarrow> jsstring \<Rightarrow> jsval" where
  "sql_date E dt = (case read_timestamp dt of None \<Rightarrow> date_other E dt | Some (d, t) \<Rightarrow> Str d)"

definition sql_time :: "sqlite \<Rightarrow> jsstring \<Rightarrow> jsval" where
  "sql_time E dt = (case read_timestamp dt of None \<Rightarrow> time_other E dt | Some (d, t) \<Rightarrow> Str t)"

text \<open>Taking a known beginning or end off a statement text.\<close>

fun strip_prefix :: "'a list \<Rightarrow> 'a list \<Rightarrow> 'a list option" where
  "strip_prefix [] ys = Some ys"
| "strip_prefix (x # xs) [] = None"
| "strip_prefix (x # xs) (y # ys) = (if x = y then strip_prefix xs ys else None)"

definition strip_suffix :: "'a list \<Rightarrow> 'a list \<Rightarrow> 'a list option" where
  "strip_suffix s ys = map_option rev (strip_prefix (rev s) (rev ys))"

text \<open>
  The part between the select and the \<^verbatim>\<open>ORDER BY\<close>: nothing, or \<^verbatim>\<open> WHERE \<close> and a
  condition.
\<close>

definition select_where ::
  "(jsstring \<Rightarrow> jsval list \<Rightarrow> 'r \<Rightarrow> bool) \<Rightarrow> jsstring \<Rightarrow> jsval list \<Rightarrow> 'r list \<Rightarrow> error + 'r list" where
  "select_where cond m params rows =
     (if m = [] then Inr rows
      else (case strip_prefix (lit '' WHERE '') m of
              None \<Rightarrow> Inl StoreError
            | Some w \<Rightarrow> Inr (filter (cond w params) rows)))"

text \<open>
  The number after \<^verbatim>\<open>LIMIT\<close>: decimal digits give the cap, a minus sign and digits
  give no cap, and anything else (\<^verbatim>\<open>NaN\<close>, for one) is an error.
\<close>

definition is_limit_char :: "nat \<Rightarrow> bool" where
  "is_limit_char c \<longleftrightarrow> is_dec c \<or> c = 45"

definition read_limit :: "jsstring \<Rightarrow> nat option option" where
  "read_limit num =
     (if num \<noteq> [] \<and> list_all is_dec num then Some (Some (digits_value 10 num))
      else if take 1 num = lit ''-'' \<and> tl num \<noteq> [] \<and> list_all is_dec (tl num) then Some None
      else None)"

definition cap_rows :: "nat option \<Rightarrow> 'r list \<Rightarrow> 'r list" where
  "cap_rows cap rows = (case cap of None \<Rightarrow> rows | Some n \<Rightarrow> take n rows)"

text \<open>The columns each read returns, under the names the handlers read them by.\<close>

definition code_result :: "code_row \<Rightarrow> row" where
  "code_result r =
     [(lit ''code'', Number (decimal (code_no r))), (lit ''incident_type'', Str (code_type r))]"

definition neighborhood_result :: "neighborhood_row \<Rightarrow> row" where
  "neighborhood_result r =
     [(lit ''neighborhood_number'', Number (decimal (neighborhood_no r))),
      (lit ''neighborhood_name'', Str (neighborhood_label r))]"

definition incident_result :: "sqlite \<Rightarrow> incident_row \<Rightarrow> row" where
  "incident_result E r =
     [(lit ''case_number'', row_case_number r),
      (lit ''date'', sql_date E (row_date_time r)),
      (lit ''time'', sql_time E (row_date_time r)),
      (lit ''code'', row_code r),
      (lit ''incident'', row_incident r),
      (lit ''police_grid'', row_police_grid r),
      (lit ''neighborhood_number'', row_neighborhood_number r),
      (lit ''block'', row_block r)]"

definition feed_columns :: jsstring where
  "feed_columns = lit
     (''\<newline>''
      @ ''            SELECT case_number, \<newline>''
      @ ''                   DATE(date_time) as date, \<newline>''
      @ ''                   TIME(date_time) as time,\<newline>''
      @ ''                   code, \<newline>''
      @ ''                   incident, \<newline>''
      @ ''                   police_grid, \<newline>''
      @ ''                   neighborhood_number, \<newline>''
      @ ''                   block\<newline>''
      @ ''            FROM Incidents\<newline>''
      @ ''        '')"

text \<open>
  Modelled from the spec: the incident feed, newest first and capped. The text after
  the columns is an optional condition, \<^verbatim>\<open> ORDER BY date_time DESC LIMIT \<close> and the
  number. Timestamps are text and compare code unit by code unit (the order of SQLite
  on text without characters outside the basic plane). Among rows with the same
  timestamp the model returns the later stored row first; SQLite promises no order
  there.
\<close>

definition engine_feed :: "sqlite \<Rightarrow> database \<Rightarrow> jsstring \<Rightarrow> jsval list \<Rightarrow> error + row list" where
  "engine_feed E db rest params =
     (let num = rev (takeWhile is_limit_char (rev rest));
          body = take (length rest - length num) rest
      in case strip_suffix (lit '' ORDER BY date_time DESC LIMIT '') body of
           None \<Rightarrow> Inl StoreError
         | Some m \<Rightarrow>
             (case read_limit num of
                None \<Rightarrow> Inl StoreError
              | Some cap \<Rightarrow>
                  (case select_where (where_incidents E) m params (db_incidents db) of
                     Inl e \<Rightarrow> Inl e
                   | Inr rs \<Rightarrow>
                       Inr (map (incident_result E)
                              (cap_rows cap (rev (sort_key row_date_time rs)))))))"

text \<open>
  Modelled from the spec: the read primitive on the four reads the handlers send, the
  lookups ordered by their identifier (rows with the same identifier in stored order).
\<close>

definition engine_select :: "sqlite \<Rightarrow> database db_select" where
  "engine_select E db query params =
     (case strip_prefix (lit ''SELECT code, incident_type FROM Codes'') query of
        Some rest \<Rightarrow>
          (case strip_suffix (lit '' ORDER BY code'') rest of
             None \<Rightarrow> Inl StoreError
           | Some m \<Rightarrow>
               (case select_where (where_codes E) m params (db_codes db) of
                  Inl e \<Rightarrow> Inl e
                | Inr rs \<Rightarrow> Inr (map code_result (sort_key code_no rs))))
      | None \<Rightarrow>
     (case strip_prefix
             (lit ''SELECT neighborhood_number, neighborhood_name FROM Neighborhoods'') query of
        Some rest \<Rightarrow>
          (case strip_suffix (lit '' ORDER BY neighborhood_number'') rest of
             None \<Rightarrow> Inl StoreError
           | Some m \<Rightarrow>
               (case select_where (where_neighborhoods E) m params (db_neighborhoods db) of
                  Inl e \<Rightarrow> Inl e
                | Inr rs \<Rightarrow> Inr (map neighborhood_result (sort_key neighborhood_no rs))))
      | None \<Rightarrow>
     (case strip_prefix feed_columns query of
        Some rest \<Rightarrow> engine_feed E db rest params
      | None \<Rightarrow>
     (case strip_prefix (lit ''SELECT case_number FROM Incidents WHERE '') query of
        Some w \<Rightarrow>
          Inr (map (\<lambda>r. [(lit ''case_number'', row_case_number r)])
                 (filter (where_incidents E w params) (db_incidents db)))
      | None \<Rightarrow> Inl StoreError))))"

definition insert_text :: jsstring where
  "insert_text = lit
     (''\<newline>''
      @ ''            INSERT INTO Incidents (case_number, date_time, code, incident, police_grid, neighborhood_number, block)\<newline>''
      @ ''            VALUES (?, ?, ?, ?, ?, ?, ?)\<newline>''
      @ ''        '')"

text \<open>
  Modelled from the spec: the write primitive on the insert and the delete. The insert
  stores the bound values as they are; the timestamp it is given is a text (the handler
  binds no other).
\<close>

definition engine_run :: "sqlite \<Rightarrow> database db_run" where
  "engine_run E db query params =
     (if query = insert_text
      then (case params of
              [cn, Str dt, c, i, g, n, b] \<Rightarrow>
                Inr (db\<lparr>db_incidents := db_incidents db @
                       [\<lparr>row_case_number = cn, row_date_time = dt, row_code = c,
                         row_incident = i, row_police_grid = g,
                         row_neighborhood_number = n, row_block = b\<rparr>]\<rparr>)
            | _ \<Rightarrow> Inl StoreError)
      else (case strip_prefix (lit ''DELETE FROM Incidents WHERE '') query of
              Some w \<Rightarrow>
                Inr (db\<lparr>db_incidents :=
                       filter (\<lambda>r. \<not> where_incidents E w params r) (db_incidents db)\<rparr>)
            | None \<Rightarrow> Inl StoreError))"

text \<open>
  The rows a list of clauses selects, the objects the handlers send for a row, the cap a
  limit stands for, and the row an insert of a request body stores.
\<close>

definition rows_where ::
  "(jsstring \<Rightarrow> jsval list \<Rightarrow> 'r \<Rightarrow> bool) \<Rightarrow> jsstring list \<Rightarrow> jsval list \<Rightarrow> 'r list \<Rightarrow> 'r list" where
  "rows_where cond clauses params rows =
     (if clauses = [] then rows else filter (cond (join (lit '' AND '') clauses) params) rows)"

definition limit_cap :: "int \<Rightarrow> nat option" where
  "limit_cap n = (if n < 0 then None else Some (nat n))"

definition code_object :: "code_row \<Rightarrow> jsval" where
  "code_object r =
     Obj [(lit ''code'', Number (decimal (code_no r))), (lit ''type'', Str (code_type r))]"

definition neighborhood_object :: "neighborhood_row \<Rightarrow> jsval" where
  "neighborhood_object r =
     Obj [(lit ''id'', Number (decimal (neighborhood_no r))),
          (lit ''name'', Str (neighborhood_label r))]"

definition incident_object :: "sqlite \<Rightarrow> incident_row \<Rightarrow> jsval" where
  "incident_object E r = Obj (incident_result E r)"

definition inserted_row :: "jsobject \<Rightarrow> jsstring \<Rightarrow> incident_row" where
  "inserted_row body dateTime =
     \<lparr>row_case_number = get_prop body (lit ''case_number''),
      row_date_time = dateTime,
      row_code = get_prop body (lit ''code''),
      row_incident = get_prop body (lit ''incident''),
      row_police_grid = get_prop body (lit ''police_grid''),
      row_neighborhood_number = get_prop body (lit ''neighborhood_number''),
      row_block = get_prop body (lit ''block'')\<rparr>"

section \<open>Example requests\<close>

text \<open>\<^verbatim>\<open>GET /incidents?limit=abc\<close>\<close>

definition bad_limit :: jsobject where
  "bad_limit = [lit ''limit'' \<mapsto> Str (lit ''abc'')]"

text \<open>\<^verbatim>\<open>?code=s\<close> and \<^verbatim>\<open>?limit=s\<close>\<close>

definition code_filter :: "string \<Rightarrow> jsobject" where
  "code_filter s = [lit ''code'' \<mapsto> Str (lit s)]"

definition limit_only :: "string \<Rightarrow> jsobject" where
  "limit_only s = [lit ''limit'' \<mapsto> Str (lit s)]"

text \<open>\<^verbatim>\<open>GET /codes?code=100&code=110\<close>: the parser makes the value an array.\<close>

definition repeated_code :: jsobject where
  "repeated_code = [lit ''code'' \<mapsto> Arr [Str (lit ''100''), Str (lit ''110'')]]"

text \<open>\<^verbatim>\<open>GET /codes?code=\<close>\<close>

definition empty_code :: jsobject where
  "empty_code = [lit ''code'' \<mapsto> Str []]"

text \<open>\<^verbatim>\<open>GET /incidents?start_date=2023-01-01&code=600, 700&grid=87\<close>\<close>

definition two_filters :: jsobject where
  "two_filters =
     [lit ''start_date'' \<mapsto> Str (lit ''2023-01-01''),
      lit ''code'' \<mapsto> Str (lit ''600, 700''),
      lit ''grid'' \<mapsto> Str (lit ''87'')]"

text \<open>A body whose date is the object \<^verbatim>\<open>{"toString": 1}\<close>.\<close>

definition odd_body :: jsobject where
  "odd_body =
     [lit ''case_number'' \<mapsto> Str (lit ''24000003''),
      lit ''date'' \<mapsto> Obj [(lit ''toString'', Number (lit ''1''))],
      lit ''time'' \<mapsto> Str (lit ''10:30:00'')]"

text \<open>A body with a case number and nothing else, and the row it is stored as.\<close>

definition sparse_body :: jsobject where
  "sparse_body = [lit ''case_number'' \<mapsto> Str (lit ''24000004'')]"

definition sparse_row :: incident_row where
  "sparse_row =
     \<lparr>row_case_number = Str (lit ''24000004''),
      row_date_time = lit ''undefinedTundefined'',
      row_code = Undefined,
      row_incident = Undefined,
      row_police_grid = Undefined,
      row_neighborhood_number = Undefined,
      row_block = Undefined\<rparr>"

text \<open>\<^verbatim>\<open>GET /incidents?case_number=v\<close>\<close>

definition case_number_query :: "jsval \<Rightarrow> jsobject" where
  "case_number_query v = [lit ''case_number'' \<mapsto> v]"

text \<open>\<^verbatim>\<open>?id=s\<close> and \<^verbatim>\<open>?grid=s\<close>\<close>

definition id_filter :: "string \<Rightarrow> jsobject" where
  "id_filter s = [lit ''id'' \<mapsto> Str (lit s)]"

definition grid_filter :: "string \<Rightarrow> jsobject" where
  "grid_filter s = [lit ''grid'' \<mapsto> Str (lit s)]"

text \<open>
  An engine and a database to run requests on. The engine's conditions compare a bound
  text with the decimal text of an identifier, and know the check on a case number and
  a single police grid; the tables are not stored in the order of their keys.
\<close>

definition example_sqlite :: sqlite where
  "example_sqlite =
     \<lparr>where_codes = (\<lambda>w params r. Str (decimal (code_no r)) \<in> set params),
      where_neighborhoods = (\<lambda>w params r. Str (decimal (neighborhood_no r)) \<in> set params),
      where_incidents =
        (\<lambda>w params r.
           if w = lit ''case_number = ?''
           then (case row_case_number r of Str s \<Rightarrow> params = [Str s] | _ \<Rightarrow> False)
           else if w = lit ''police_grid IN (?)''
           then (case row_police_grid r of Number t \<Rightarrow> params = [Str t] | _ \<Rightarrow> False)
           else False),
      date_other = (\<lambda>dt. Null),
      time_other = (\<lambda>dt. Null)\<rparr>"

definition later_row :: incident_row where
  "later_row =
     \<lparr>row_case_number = Str (lit ''24000009''),
      row_date_time = lit ''2024-03-05T23:59:10'',
      row_code = Number (lit ''600''),
      row_incident = Str (lit ''Theft''),
      row_police_grid = Number (lit ''87''),
      row_neighborhood_number = Number (lit ''7''),
      row_block = Str (lit ''45X DALE ST N'')\<rparr>"

definition example_db :: database where
  "example_db =
     \<lparr>db_codes =
        [\<lparr>code_no = 600, code_type = lit ''Theft''\<rparr>,
         \<lparr>code_no = 100, code_type = lit ''Murder''\<rparr>,
         \<lparr>code_no = 300, code_type = lit ''Robbery''\<rparr>],
      db_neighborhoods =
        [\<lparr>neighborhood_no = 7, neighborhood_label = lit ''Thomas/Dale(Frogtown)''\<rparr>,
         \<lparr>neighborhood_no = 1, neighborhood_label = lit ''Conway/Battlecreek/Highwood''\<rparr>,
         \<lparr>neighborhood_no = 4, neighborhood_label = lit ''Payne/Phalen''\<rparr>],
      db_incidents = [stored_row, new_row, later_row]\<rparr>"

definition one_row_db :: database where
  "one_row_db = \<lparr>db_codes = [], db_neighborhoods = [], db_incidents = [stored_row]\<rparr>"

text \<open>A body with a case number of its own, and the row it is stored as.\<close>

definition fresh_body :: jsobject where
  "fresh_body =
     [lit ''case_number'' \<mapsto> Str (lit ''24000005''),
      lit ''date'' \<mapsto> Str (lit ''2024-06-07''),
      lit ''time'' \<mapsto> Str (lit ''21:05:09''),
      lit ''code'' \<mapsto> Number (lit ''300''),
      lit ''incident'' \<mapsto> Str (lit ''Robbery''),
      lit ''police_grid'' \<mapsto> Number (lit ''95''),
      lit ''neighborhood_number'' \<mapsto> Number (lit ''4''),
      lit ''block'' \<mapsto> Str (lit ''79X 6 ST E'')]"

definition fresh_row :: incident_row where
  "fresh_row =
     \<lparr>row_case_number = Str (lit ''24000005''),
      row_date_time = lit ''2024-06-07T21:05:09'',
      row_code = Number (lit ''300''),
      row_incident = Str (lit ''Robbery''),
      row_police_grid = Number (lit ''95''),
      row_neighborhood_number = Number (lit ''4''),
      row_block = Str (lit ''79X 6 ST E'')\<rparr>"

text \<open>A body whose time has no seconds, \<^verbatim>\<open>10:30\<close>, and the row it is stored as.\<close>

definition short_body :: jsobject where
  "short_body =
     [lit ''case_number'' \<mapsto> Str (lit ''24000002''),
      lit ''date'' \<mapsto> Str (lit ''2024-01-02''),
      lit ''time'' \<mapsto> Str (lit ''10:30''),
      lit ''code'' \<mapsto> Number (lit ''700''),
      lit ''incident'' \<mapsto> Str (lit ''Auto Theft''),
      lit ''police_grid'' \<mapsto> Number (lit ''95''),
      lit ''neighborhood_number'' \<mapsto> Number (lit ''4''),
      lit ''block'' \<mapsto> Str (lit ''79X 6 ST E'')]"

definition short_row :: incident_row where
  "short_row =
     \<lparr>row_case_number = Str (lit ''24000002''),
      row_date_time = lit ''2024-01-02T10:30'',
      row_code = Number (lit ''700''),
      row_incident = Str (lit ''Auto Theft''),
      row_police_grid = Number (lit ''95''),
      row_neighborhood_number = Number (lit ''4''),
      row_block = Str (lit ''79X 6 ST E'')\<rparr>"

text \<open>A body whose time is the array \<^verbatim>\<open>[{"toString": null}]\<close>.\<close>

definition odd_time_body :: jsobject where
  "odd_time_body =
     [lit ''case_number'' \<mapsto> Str (lit ''24000003''),
      lit ''date'' \<mapsto> Str (lit ''2024-01-02''),
      lit ''time'' \<mapsto> Arr [Obj [(lit ''toString'', Null)]]]"

section \<open>Properties\<close>

subsection \<open>Splitting and placeholders\<close>

lemma split_comma_nonempty: "split_comma s \<noteq> []"
  by (induction s) (auto split: list.splits)

lemma length_split_comma: "length (split_comma s) = Suc (count_list s 44)"
  by (induction s) (auto split: list.splits simp: split_comma_nonempty)

lemma count_placeholders: "count_list (placeholders es) 63 = length es"
  unfolding placeholders_def
  by (induction es rule: induct_list012) simp_all

lemma placeholders_length:
  "length es1 = length es2 \<Longrightarrow> placeholders es1 = placeholders es2"
  by (simp add: placeholders_def map_replicate_const)

lemma in_clause_length:
  "length es1 = length es2 \<Longrightarrow> in_clause col es1 = in_clause col es2"
  using placeholders_length [of es1 es2] by (auto simp: in_clause_def)

lemma elements_Str: "s \<noteq> [] \<Longrightarrow> elements (Str s) = map trim (split_comma s)"
  by (simp add: elements_def)

lemma elements_nonempty: "truthy v \<Longrightarrow> string_or_absent v \<Longrightarrow> elements v \<noteq> []"
  by (cases v) (auto simp: elements_def string_or_absent_def split_comma_nonempty)

lemma elements_falsy: "\<not> truthy v \<Longrightarrow> elements v = []"
  by (cases v) (auto simp: elements_def)

lemma split_trim_elements:
  "truthy v \<Longrightarrow> string_or_absent v \<Longrightarrow> split_trim v = Inr (elements v)"
  by (cases v) (auto simp: elements_def string_or_absent_def split_trim_def)

lemma split_trim_not_string:
  "truthy v \<Longrightarrow> \<not> string_or_absent v \<Longrightarrow> split_trim v = Inl TypeError"
  by (cases v) (auto simp: string_or_absent_def split_trim_def)

subsection \<open>The statements in terms of the filters\<close>

lemma list_filter_ok:
  assumes "string_or_absent v"
  shows "list_filter col v (wc, ps)
         = Inr (wc @ in_clause col (elements v), ps @ map Str (elements v))"
proof (cases "truthy v")
  case True
  with assms show ?thesis
    by (simp add: list_filter_def split_trim_elements in_clause_def elements_nonempty)
next
  case False
  then show ?thesis
    by (simp add: list_filter_def elements_falsy in_clause_def)
qed

lemma list_filter_not_string:
  assumes "\<not> string_or_absent v"
  shows "list_filter col v acc = Inl TypeError"
proof -
  from assms have "truthy v" by (cases v) (auto simp: string_or_absent_def)
  with assms show ?thesis
    by (cases acc) (simp add: list_filter_def split_trim_not_string)
qed

lemma date_filter_eq:
  "date_filter clause v (wc, ps) = (wc @ date_clause clause v, ps @ date_param v)"
  by (simp add: date_filter_def date_clause_def date_param_def)

lemma where_text_single: "where_text (in_clause col es)
   = (if es = [] then [] else lit '' WHERE '' @ col @ lit '' IN ('' @ placeholders es @ lit '')'')"
  by (simp add: where_text_def in_clause_def)

lemma codes_query_form:
  "codes_query q =
     (if string_or_absent (get_prop q (lit ''code''))
      then Inr (codes_select
                  @ where_text (in_clause (lit ''code'') (elements (get_prop q (lit ''code''))))
                  @ lit '' ORDER BY code'',
                map Str (elements (get_prop q (lit ''code''))))
      else Inl TypeError)"
proof (cases "truthy (get_prop q (lit ''code''))")
  case True
  then show ?thesis
    by (cases "string_or_absent (get_prop q (lit ''code''))")
       (simp_all add: Let_def codes_query_def codes_select_def where_text_single split_trim_elements
          split_trim_not_string elements_nonempty)
next
  case False
  then have "string_or_absent (get_prop q (lit ''code''))"
    by (cases "get_prop q (lit ''code'')") (auto simp: string_or_absent_def)
  with False show ?thesis
    by (simp add: Let_def codes_query_def codes_select_def where_text_single elements_falsy)
qed

lemma neighborhoods_query_form:
  "neighborhoods_query q =
     (if string_or_absent (get_prop q (lit ''id''))
      then Inr (neighborhoods_select
                  @ where_text (in_clause (lit ''neighborhood_number'')
                                  (elements (get_prop q (lit ''id''))))
                  @ lit '' ORDER BY neighborhood_number'',
                map Str (elements (get_prop q (lit ''id''))))
      else Inl TypeError)"
proof (cases "truthy (get_prop q (lit ''id''))")
  case True
  then show ?thesis
    by (cases "string_or_absent (get_prop q (lit ''id''))")
       (simp_all add: Let_def neighborhoods_query_def neighborhoods_select_def where_text_single
          split_trim_elements split_trim_not_string elements_nonempty)
next
  case False
  then have "string_or_absent (get_prop q (lit ''id''))"
    by (cases "get_prop q (lit ''id'')") (auto simp: string_or_absent_def)
  with False show ?thesis
    by (simp add: Let_def neighborhoods_query_def neighborhoods_select_def where_text_single
          elements_falsy)
qed

lemma incidents_query_ok:
  assumes "string_or_absent (get_prop q (lit ''code''))"
    and "string_or_absent (get_prop q (lit ''grid''))"
    and "string_or_absent (get_prop q (lit ''neighborhood''))"
    and "limit_of (get_prop q (lit ''limit'')) = Inr limit"
  shows "incidents_query big q
         = Inr (incidents_select @ where_text (filter_clauses q)
                  @ lit '' ORDER BY date_time DESC'' @ lit '' LIMIT '' @ number_text big limit,
                filter_params q)"
  unfolding incidents_query_def Let_def date_filter_eq
  using assms
  by (simp only: list_filter_ok sum.case prod.case where_text_def filter_clauses_def
        filter_params_def append_Nil append_assoc length_greater_0_conv if_not_P if_P
        split: if_splits) auto

lemma incidents_query_error:
  assumes "\<not> (string_or_absent (get_prop q (lit ''code''))
            \<and> string_or_absent (get_prop q (lit ''grid''))
            \<and> string_or_absent (get_prop q (lit ''neighborhood'')))
           \<or> limit_of (get_prop q (lit ''limit'')) = Inl e"
  shows "\<exists>e'. incidents_query big q = Inl e'"
  unfolding incidents_query_def Let_def date_filter_eq
  using assms
  by (cases "string_or_absent (get_prop q (lit ''code''))";
      cases "string_or_absent (get_prop q (lit ''grid''))";
      cases "string_or_absent (get_prop q (lit ''neighborhood''))")
     (auto simp: list_filter_ok list_filter_not_string)

lemma incidents_query_not_string:
  assumes "\<not> (string_or_absent (get_prop q (lit ''code''))
            \<and> string_or_absent (get_prop q (lit ''grid''))
            \<and> string_or_absent (get_prop q (lit ''neighborhood'')))"
  shows "incidents_query big q = Inl TypeError"
  unfolding incidents_query_def Let_def date_filter_eq
  using assms
  by (cases "string_or_absent (get_prop q (lit ''code''))";
      cases "string_or_absent (get_prop q (lit ''grid''))";
      cases "string_or_absent (get_prop q (lit ''neighborhood''))")
     (auto simp: list_filter_ok list_filter_not_string)

lemma incidents_query_Inr:
  assumes "incidents_query big q = Inr (query, params)"
  shows "\<exists>limit. limit_of (get_prop q (lit ''limit'')) = Inr limit
           \<and> query = incidents_select @ where_text (filter_clauses q)
                       @ lit '' ORDER BY date_time DESC'' @ lit '' LIMIT ''
                       @ number_text big limit
           \<and> params = filter_params q"
proof -
  have ok: "string_or_absent (get_prop q (lit ''code''))
         \<and> string_or_absent (get_prop q (lit ''grid''))
         \<and> string_or_absent (get_prop q (lit ''neighborhood''))"
    using assms incidents_query_error [of q _ big] by fastforce
  show ?thesis
  proof (cases "limit_of (get_prop q (lit ''limit''))")
    case (Inl e)
    then show ?thesis using assms incidents_query_error [of q e big] by fastforce
  next
    case (Inr limit)
    then show ?thesis using assms ok incidents_query_ok [of q limit big] by simp
  qed
qed

text \<open>
  C3, as the code has it. A list filter given as a non-empty string is split on commas
  and each piece trimmed; the \<^verbatim>\<open>IN\<close> clause has one placeholder per piece, the empty
  pieces included (a piece is trimmed, never dropped), and the pieces are bound in their
  order: alone on /codes and /neighborhoods, after the date bounds and in the order code,
  grid, neighborhood on /incidents. An absent or empty filter has no elements, gives no
  clause and binds nothing. A filter that is present and not a string makes the builder
  throw.
\<close>

theorem list_filter_one_placeholder_per_element:
  "codes_query q =
     (if string_or_absent (get_prop q (lit ''code''))
      then Inr (codes_select
                  @ where_text (in_clause (lit ''code'') (elements (get_prop q (lit ''code''))))
                  @ lit '' ORDER BY code'',
                map Str (elements (get_prop q (lit ''code''))))
      else Inl TypeError)
   \<and> neighborhoods_query q =
     (if string_or_absent (get_prop q (lit ''id''))
      then Inr (neighborhoods_select
                  @ where_text (in_clause (lit ''neighborhood_number'')
                                  (elements (get_prop q (lit ''id''))))
                  @ lit '' ORDER BY neighborhood_number'',
                map Str (elements (get_prop q (lit ''id''))))
      else Inl TypeError)
   \<and> (string_or_absent (get_prop q (lit ''code''))
        \<and> string_or_absent (get_prop q (lit ''grid''))
        \<and> string_or_absent (get_prop q (lit ''neighborhood''))
        \<and> limit_of (get_prop q (lit ''limit'')) = Inr limit
      \<longrightarrow> incidents_query big q
           = Inr (incidents_select @ where_text (filter_clauses q)
                    @ lit '' ORDER BY date_time DESC'' @ lit '' LIMIT '' @ number_text big limit,
                  filter_params q))
   \<and> (\<not> (string_or_absent (get_prop q (lit ''code''))
            \<and> string_or_absent (get_prop q (lit ''grid''))
            \<and> string_or_absent (get_prop q (lit ''neighborhood'')))
      \<longrightarrow> incidents_query big q = Inl TypeError)
   \<and> (s \<noteq> [] \<longrightarrow> elements (Str s) = map trim (split_comma s)
                     \<and> length (elements (Str s)) = Suc (count_list s 44))
   \<and> elements (Str []) = [] \<and> elements Undefined = []
   \<and> in_clause col [] = []
   \<and> (es \<noteq> [] \<longrightarrow> in_clause col es = [col @ lit '' IN ('' @ placeholders es @ lit '')''])
   \<and> placeholders es = join (lit '','') (replicate (length es) (lit ''?''))
   \<and> count_list (placeholders es) 63 = length es"
  using codes_query_form [of q] neighborhoods_query_form [of q]
    incidents_query_ok [of q limit big] incidents_query_not_string [of q big]
    elements_Str [of s] length_split_comma [of s]
    count_placeholders [of es]
  by (simp add: elements_def in_clause_def placeholders_def map_replicate_const)

theorem list_filter_one_placeholder_per_element_witness:
  "codes_query (code_filter ''100, 110'')
     = Inr (lit ''SELECT code, incident_type FROM Codes WHERE code IN (?,?) ORDER BY code'',
            [Str (lit ''100''), Str (lit ''110'')])
   \<and> incidents_query decimal two_filters
     = Inr (incidents_select
              @ lit '' WHERE date(date_time) >= ? AND code IN (?,?) AND police_grid IN (?)''
              @ lit '' ORDER BY date_time DESC LIMIT 1000'',
            [Str (lit ''2023-01-01''), Str (lit ''600''), Str (lit ''700''), Str (lit ''87'')])"
proof -
  have e: "elements (Str (lit ''100, 110'')) = [lit ''100'', lit ''110'']"
    by (simp add: elements_def trim_def is_whitespace_def)
  have e2: "elements (Str (lit ''600, 700'')) = [lit ''600'', lit ''700'']"
    "elements (Str (lit ''87'')) = [lit ''87'']"
    by (simp_all add: elements_def trim_def is_whitespace_def)
  have g: "get_prop two_filters (lit ''start_date'') = Str (lit ''2023-01-01'')"
    "get_prop two_filters (lit ''end_date'') = Undefined"
    "get_prop two_filters (lit ''code'') = Str (lit ''600, 700'')"
    "get_prop two_filters (lit ''grid'') = Str (lit ''87'')"
    "get_prop two_filters (lit ''neighborhood'') = Undefined"
    "get_prop two_filters (lit ''limit'') = Undefined"
    by (simp_all add: two_filters_def get_prop_def)
  have c: "get_prop (code_filter ''100, 110'') (lit ''code'') = Str (lit ''100, 110'')"
    by (simp add: code_filter_def get_prop_def)
  note t = list_filter_one_placeholder_per_element
  have "codes_query (code_filter ''100, 110'')
     = Inr (lit ''SELECT code, incident_type FROM Codes WHERE code IN (?,?) ORDER BY code'',
            [Str (lit ''100''), Str (lit ''110'')])"
    using t [of "code_filter ''100, 110''"] e
    unfolding c
    by (simp add: string_or_absent_def codes_select_def where_text_def in_clause_def
          placeholders_def)
  moreover
  have "incidents_query decimal two_filters
     = Inr (incidents_select
              @ lit '' WHERE date(date_time) >= ? AND code IN (?,?) AND police_grid IN (?)''
              @ lit '' ORDER BY date_time DESC LIMIT 1000'',
            [Str (lit ''2023-01-01''), Str (lit ''600''), Str (lit ''700''), Str (lit ''87'')])"
    using t [of two_filters "Integer 1000" decimal] e2
    unfolding g filter_clauses_def filter_params_def
    by (simp add: string_or_absent_def limit_of_def where_text_def in_clause_def
          placeholders_def date_clause_def date_param_def number_text_def digits.simps
          elements_def)
  ultimately show ?thesis by simp
qed

text \<open>
  Against C3 as stated (one placeholder per non-empty element): \<^verbatim>\<open>?code=100,,110\<close>
  has two non-empty elements and gets three placeholders, the empty string bound as the
  second parameter; and a code that is present as an array is not split at all.
\<close>

theorem empty_elements_get_placeholders:
  "codes_query (code_filter ''100,,110'')
     = Inr (lit ''SELECT code, incident_type FROM Codes WHERE code IN (?,?,?) ORDER BY code'',
            [Str (lit ''100''), Str [], Str (lit ''110'')])
   \<and> filter (\<lambda>e. e \<noteq> []) (map trim (split_comma (lit ''100,,110'')))
     = [lit ''100'', lit ''110'']
   \<and> codes_query repeated_code = Inl TypeError"
  by (simp add: codes_query_def codes_select_def code_filter_def get_prop_def split_trim_def trim_def
        is_whitespace_def placeholders_def repeated_code_def)

subsection \<open>No filter value in the statement text\<close>

lemma list_shape_eq:
  assumes "list_shape v1 = list_shape v2"
  shows "string_or_absent v1 = string_or_absent v2"
    and "length (elements v1) = length (elements v2)"
  using assms
  by (cases v1; cases v2;
      auto simp: list_shape_def string_or_absent_def elements_def split: if_splits)+

lemma in_clause_shape:
  "list_shape v1 = list_shape v2
   \<Longrightarrow> in_clause col (elements v1) = in_clause col (elements v2)"
  by (rule in_clause_length) (rule list_shape_eq)

lemma filter_clauses_shape:
  assumes "same_shape q1 q2"
  shows "filter_clauses q1 = filter_clauses q2"
  using assms
  by (simp add: same_shape_def filter_clauses_def date_clause_def
        in_clause_shape [of "get_prop q1 k" "get_prop q2 k" for k])

lemma built_text_codes:
  "built_text (codes_query q) =
     (if string_or_absent (get_prop q (lit ''code''))
      then Some (codes_select
                  @ where_text (in_clause (lit ''code'') (elements (get_prop q (lit ''code''))))
                  @ lit '' ORDER BY code'')
      else None)"
  by (simp add: codes_query_form built_text_def)

lemma built_text_neighborhoods:
  "built_text (neighborhoods_query q) =
     (if string_or_absent (get_prop q (lit ''id''))
      then Some (neighborhoods_select
                  @ where_text (in_clause (lit ''neighborhood_number'')
                                  (elements (get_prop q (lit ''id''))))
                  @ lit '' ORDER BY neighborhood_number'')
      else None)"
  by (simp add: neighborhoods_query_form built_text_def)

lemma built_text_incidents:
  "built_text (incidents_query big q) =
     (if string_or_absent (get_prop q (lit ''code''))
         \<and> string_or_absent (get_prop q (lit ''grid''))
         \<and> string_or_absent (get_prop q (lit ''neighborhood''))
      then (case limit_of (get_prop q (lit ''limit'')) of
              Inl e \<Rightarrow> None
            | Inr limit \<Rightarrow>
                Some (incidents_select @ where_text (filter_clauses q)
                      @ lit '' ORDER BY date_time DESC'' @ lit '' LIMIT ''
                      @ number_text big limit))
      else None)"
proof (cases "string_or_absent (get_prop q (lit ''code''))
         \<and> string_or_absent (get_prop q (lit ''grid''))
         \<and> string_or_absent (get_prop q (lit ''neighborhood''))")
  case True
  show ?thesis
  proof (cases "limit_of (get_prop q (lit ''limit''))")
    case (Inl e)
    then obtain e' where "incidents_query big q = Inl e'"
      using incidents_query_error [of q e big] by blast
    with True Inl show ?thesis by (simp add: built_text_def)
  next
    case (Inr limit)
    with True show ?thesis
      using incidents_query_ok [of q limit big] by (simp add: built_text_def)
  qed
next
  case False
  then obtain e' where "incidents_query big q = Inl e'"
    using incidents_query_error [of q _ big] by blast
  with False show ?thesis by (auto simp add: built_text_def)
qed

lemma same_shape_text:
  assumes "same_shape q1 q2" and "same_limit q1 q2"
  shows "built_text (codes_query q1) = built_text (codes_query q2)"
    and "built_text (neighborhoods_query q1) = built_text (neighborhoods_query q2)"
    and "built_text (incidents_query big q1) = built_text (incidents_query big q2)"
proof -
  have s: "string_or_absent (get_prop q1 k) = string_or_absent (get_prop q2 k)"
    and c: "in_clause col (elements (get_prop q1 k)) = in_clause col (elements (get_prop q2 k))"
    if "list_shape (get_prop q1 k) = list_shape (get_prop q2 k)" for k col
    using that list_shape_eq(1) in_clause_shape by blast+
  show "built_text (codes_query q1) = built_text (codes_query q2)"
    using assms(1) unfolding built_text_codes same_shape_def
    by (simp add: s c)
  show "built_text (neighborhoods_query q1) = built_text (neighborhoods_query q2)"
    using assms(1) unfolding built_text_neighborhoods same_shape_def
    by (simp add: s c)
  have f: "filter_clauses q1 = filter_clauses q2"
    using assms(1) by (rule filter_clauses_shape)
  have l: "limit_of (get_prop q1 (lit ''limit'')) = limit_of (get_prop q2 (lit ''limit''))"
    using assms(2) by (simp add: same_limit_def)
  have "string_or_absent (get_prop q1 (lit ''code'')) = string_or_absent (get_prop q2 (lit ''code''))"
    and "string_or_absent (get_prop q1 (lit ''grid'')) = string_or_absent (get_prop q2 (lit ''grid''))"
    and "string_or_absent (get_prop q1 (lit ''neighborhood''))
         = string_or_absent (get_prop q2 (lit ''neighborhood''))"
    using assms(1) by (auto simp add: same_shape_def dest: list_shape_eq(1))
  then show "built_text (incidents_query big q1) = built_text (incidents_query big q2)"
    unfolding built_text_incidents f l by simp
qed

lemma count_join:
  "count_list sep x = 0
   \<Longrightarrow> count_list (join sep cs) x = sum_list (map (\<lambda>c. count_list c x) cs)"
  by (induction cs rule: induct_list012) simp_all

lemma count_where_text:
  "count_list (where_text cs) 63 = sum_list (map (\<lambda>c. count_list c 63) cs)"
  by (simp add: where_text_def count_join)

lemma count_in_clause:
  "count_list col 63 = 0
   \<Longrightarrow> sum_list (map (\<lambda>c. count_list c 63) (in_clause col es)) = length es"
  by (simp add: in_clause_def count_placeholders)

lemma count_filter_clauses:
  "count_list (where_text (filter_clauses q)) 63 = length (filter_params q)"
  by (simp add: count_where_text filter_clauses_def filter_params_def count_in_clause
        date_clause_def date_param_def)

lemma count_incidents_select: "count_list incidents_select 63 = 0"
  by (simp add: incidents_select_def)

lemma codes_query_count:
  assumes "codes_query q = Inr (query, params)"
  shows "count_list query 63 = length params"
  using assms unfolding codes_query_form
  by (auto simp add: codes_select_def count_where_text count_in_clause split: if_splits)

lemma neighborhoods_query_count:
  assumes "neighborhoods_query q = Inr (query, params)"
  shows "count_list query 63 = length params"
  using assms unfolding neighborhoods_query_form
  by (auto simp add: neighborhoods_select_def count_where_text count_in_clause split: if_splits)

lemma incidents_query_count:
  assumes "incidents_query big q = Inr (query, params)"
  shows "\<exists>limit. limit_of (get_prop q (lit ''limit'')) = Inr limit
          \<and> query = (incidents_select @ where_text (filter_clauses q)
                       @ lit '' ORDER BY date_time DESC LIMIT '') @ number_text big limit
          \<and> count_list (incidents_select @ where_text (filter_clauses q)
                          @ lit '' ORDER BY date_time DESC LIMIT '') 63 = length params"
proof -
  from incidents_query_Inr [OF assms] obtain limit where
    l: "limit_of (get_prop q (lit ''limit'')) = Inr limit"
    and q: "query = incidents_select @ where_text (filter_clauses q)
                       @ lit '' ORDER BY date_time DESC'' @ lit '' LIMIT ''
                       @ number_text big limit"
    and p: "params = filter_params q" by blast
  have "count_list (incidents_select @ where_text (filter_clauses q)
                          @ lit '' ORDER BY date_time DESC LIMIT '') 63 = length params"
    by (simp add: count_incidents_select count_filter_clauses p)
  with l q show ?thesis by auto
qed

text \<open>
  C2, as the code has it. The statement text of a request depends only on which date
  bounds are present, on the shape of each list filter (absent or empty, or the number
  of its comma-separated pieces) and, on /incidents, on the number read from the limit:
  two requests that agree on these get the same text, whatever the filter values. Every
  statement has as many placeholders (code unit 63) as bound parameters; on /incidents
  they are counted up to the number after \<^verbatim>\<open>LIMIT\<close>, which is the one value written
  into the text, after \<^verbatim>\<open>parseInt\<close>.
\<close>

theorem filter_values_bound_not_interpolated:
  assumes "same_shape q1 q2" and "same_limit q1 q2"
  shows "built_text (codes_query q1) = built_text (codes_query q2)
       \<and> built_text (neighborhoods_query q1) = built_text (neighborhoods_query q2)
       \<and> built_text (incidents_query big q1) = built_text (incidents_query big q2)
       \<and> (\<forall>query params. codes_query q1 = Inr (query, params)
            \<longrightarrow> count_list query 63 = length params)
       \<and> (\<forall>query params. neighborhoods_query q1 = Inr (query, params)
            \<longrightarrow> count_list query 63 = length params)
       \<and> (\<forall>query params. incidents_query big q1 = Inr (query, params)
            \<longrightarrow> (\<exists>limit. limit_of (get_prop q1 (lit ''limit'')) = Inr limit
                  \<and> query = (incidents_select @ where_text (filter_clauses q1)
                               @ lit '' ORDER BY date_time DESC LIMIT '')
                              @ number_text big limit
                  \<and> count_list (incidents_select @ where_text (filter_clauses q1)
                                  @ lit '' ORDER BY date_time DESC LIMIT '') 63
                      = length params))"
  using same_shape_text(1,2) [OF assms] same_shape_text(3) [OF assms, of big]
    codes_query_count [of q1]
    neighborhoods_query_count [of q1] incidents_query_count [of big q1]
  by blast

lemma same_shape_codes:
  "same_shape (code_filter ''100, 110'') (code_filter ''x,y'')"
  by (simp add: same_shape_def code_filter_def get_prop_def list_shape_def)

theorem filter_values_bound_not_interpolated_witness:
  "same_shape (code_filter ''100, 110'') (code_filter ''x,y'')
   \<and> same_limit (code_filter ''100, 110'') (code_filter ''x,y'')
   \<and> codes_query (code_filter ''100, 110'')
       = Inr (lit ''SELECT code, incident_type FROM Codes WHERE code IN (?,?) ORDER BY code'',
              [Str (lit ''100''), Str (lit ''110'')])
   \<and> built_text (codes_query (code_filter ''x,y''))
       = Some (lit ''SELECT code, incident_type FROM Codes WHERE code IN (?,?) ORDER BY code'')"
proof -
  have s: "same_shape (code_filter ''100, 110'') (code_filter ''x,y'')"
    by (rule same_shape_codes)
  have l: "same_limit (code_filter ''100, 110'') (code_filter ''x,y'')"
    by (simp add: same_limit_def code_filter_def get_prop_def)
  have c: "codes_query (code_filter ''100, 110'')
       = Inr (lit ''SELECT code, incident_type FROM Codes WHERE code IN (?,?) ORDER BY code'',
              [Str (lit ''100''), Str (lit ''110'')])"
    by (simp add: codes_query_def codes_select_def code_filter_def get_prop_def split_trim_def trim_def
          is_whitespace_def placeholders_def)
  from filter_values_bound_not_interpolated [OF s l, of decimal]
  have "built_text (codes_query (code_filter ''x,y''))
        = built_text (codes_query (code_filter ''100, 110''))"
    by simp
  with s l c show ?thesis by (simp add: built_text_def)
qed

text \<open>
  Against C2 as stated (the text depends only on which parameters are present and on
  their element counts): \<^verbatim>\<open>?limit=5\<close> and \<^verbatim>\<open>?limit=7\<close> both have the limit
  present with one element and get different texts; \<^verbatim>\<open>?code=\<close> and \<^verbatim>\<open>?code=a\<close>
  both have the code present with one element, and only the second gets a clause.
\<close>

theorem sql_text_depends_on_limit_and_emptiness:
  "length (split_comma (lit ''5'')) = length (split_comma (lit ''7''))
   \<and> built_text (incidents_query decimal (limit_only ''5''))
       = Some (incidents_select @ lit '' ORDER BY date_time DESC LIMIT 5'')
   \<and> built_text (incidents_query decimal (limit_only ''7''))
       = Some (incidents_select @ lit '' ORDER BY date_time DESC LIMIT 7'')
   \<and> built_text (incidents_query decimal (limit_only ''5''))
       \<noteq> built_text (incidents_query decimal (limit_only ''7''))
   \<and> length (split_comma (lit '''')) = length (split_comma (lit ''a''))
   \<and> built_text (codes_query (code_filter ''''))
       = Some (lit ''SELECT code, incident_type FROM Codes ORDER BY code'')
   \<and> built_text (codes_query (code_filter ''a''))
       = Some (lit ''SELECT code, incident_type FROM Codes WHERE code IN (?) ORDER BY code'')"
  by (simp add: built_text_def incidents_query_def limit_only_def get_prop_def date_filter_def
        list_filter_def limit_of_def parseInt_def trim_start_def is_whitespace_def is_digit_def
        digit_value_def digits_value_def number_text_def digits.simps
        codes_query_def codes_select_def code_filter_def split_trim_def trim_def placeholders_def)

subsection \<open>A limit that is not a number\<close>

lemma unfiltered: "filter_clauses bad_limit = []" 
  by (simp add: filter_clauses_def bad_limit_def get_prop_def date_clause_def in_clause_def elements_def)

text \<open>
  C1 says an unparsable limit falls back to 1000. The code does not: when the limit is a
  non-empty string in which \<^verbatim>\<open>parseInt\<close> finds no number, the statement it builds ends
  with \<^verbatim>\<open>LIMIT NaN\<close>, not with \<^verbatim>\<open>LIMIT 1000\<close>.
\<close>

theorem unparsable_limit_reaches_statement:
  assumes "get_prop q (lit ''limit'') = Str s" and "s \<noteq> []" and "parseInt s = NaN"
    and "incidents_query big q = Inr (query, params)"
  shows "query = incidents_select @ where_text (filter_clauses q)
                   @ lit '' ORDER BY date_time DESC'' @ lit '' LIMIT NaN''
       \<and> query \<noteq> incidents_select @ where_text (filter_clauses q)
                   @ lit '' ORDER BY date_time DESC'' @ lit '' LIMIT 1000''"
proof -
  have "limit_of (get_prop q (lit ''limit'')) = Inr NaN"
    using assms(1-3) by (simp add: limit_of_def)
  with incidents_query_Inr [OF assms(4)]
  have "query = incidents_select @ where_text (filter_clauses q)
                  @ lit '' ORDER BY date_time DESC'' @ lit '' LIMIT '' @ number_text big NaN"
    by auto
  then show ?thesis by (simp add: number_text_def)
qed

theorem unparsable_limit_reaches_statement_witness:
  "parseInt (lit ''abc'') = NaN
   \<and> incidents_query decimal bad_limit
       = Inr (incidents_select @ lit '' ORDER BY date_time DESC LIMIT NaN'', [])
   \<and> get_incidents decimal mock_select [stored_row] bad_limit
       = (500, Txt (lit ''Error retrieving incidents''))"
proof -
  have p: "parseInt (lit ''abc'') = NaN"
    by (simp add: parseInt_def trim_start_def is_whitespace_def is_digit_def digit_value_def)
  have g: "get_prop bad_limit (lit ''limit'') = Str (lit ''abc'')"
    by (simp add: bad_limit_def get_prop_def)
  have i: "incidents_query decimal bad_limit
           = Inr (incidents_select @ lit '' ORDER BY date_time DESC LIMIT NaN'', [])"
    unfolding incidents_query_def using p
    by (simp add: bad_limit_def get_prop_def date_filter_def list_filter_def limit_of_def
          number_text_def)
  have "incidents_select @ lit '' ORDER BY date_time DESC LIMIT NaN''
        \<noteq> incidents_select @ lit '' ORDER BY date_time DESC LIMIT 1000''"
    using unparsable_limit_reaches_statement [OF g _ p i] unfiltered
    by (simp add: where_text_def)
  then show ?thesis
    using p i by (simp add: get_incidents_def mock_select_def)
qed

subsection \<open>An empty parameter\<close>

lemma get_prop_removed:
  assumes "q k = Some (Str [])"
  shows "get_prop q K = get_prop (q(k := None)) K
         \<or> (get_prop q K = Str [] \<and> get_prop (q(k := None)) K = Undefined)"
  using assms by (simp add: get_prop_def)

lemma list_filter_empty: "list_filter col (Str []) acc = list_filter col Undefined acc"
  by (simp add: list_filter_def split: prod.splits)

lemma date_filter_empty: "date_filter clause (Str []) acc = date_filter clause Undefined acc"
  by (simp add: date_filter_def split: prod.splits)

lemma limit_of_empty: "limit_of (Str []) = limit_of Undefined"
  by (simp add: limit_of_def)

lemma codes_query_empty:
  assumes "q k = Some (Str [])"
  shows "codes_query q = codes_query (q(k := None))"
  using assms get_prop_removed [of q k "lit ''code''"]
  by (auto simp add: codes_query_def codes_select_def)

lemma neighborhoods_query_empty:
  assumes "q k = Some (Str [])"
  shows "neighborhoods_query q = neighborhoods_query (q(k := None))"
  using assms get_prop_removed [of q k "lit ''id''"]
  by (auto simp add: neighborhoods_query_def neighborhoods_select_def)

lemma incidents_query_empty:
  assumes "q k = Some (Str [])"
  shows "incidents_query big q = incidents_query big (q(k := None))"
proof -
  have d: "date_filter c (get_prop q K) acc = date_filter c (get_prop (q(k := None)) K) acc"
    for c K acc
    using assms get_prop_removed [of q k K] date_filter_empty [of c acc] by auto
  have l: "list_filter c (get_prop q K) acc = list_filter c (get_prop (q(k := None)) K) acc"
    for c K acc
    using assms get_prop_removed [of q k K] list_filter_empty [of c acc] by auto
  have m: "limit_of (get_prop q K) = limit_of (get_prop (q(k := None)) K)" for K
    using assms get_prop_removed [of q k K] limit_of_empty by auto
  show ?thesis
    unfolding incidents_query_def d l m ..
qed

text \<open>
  C9. On every GET endpoint a query parameter given as the empty string behaves as an
  absent one: the statement and its bound parameters are those of the same request
  without the parameter (so it adds no clause and binds nothing), and so is the
  response, against any store. This holds for every parameter name, the limit included.
\<close>

theorem empty_parameter_as_absent:
  assumes "q k = Some (Str [])"
  shows "codes_query q = codes_query (q(k := None))
       \<and> neighborhoods_query q = neighborhoods_query (q(k := None))
       \<and> incidents_query big q = incidents_query big (q(k := None))
       \<and> get_codes dbSelect db q = get_codes dbSelect db (q(k := None))
       \<and> get_neighborhoods dbSelect db q = get_neighborhoods dbSelect db (q(k := None))
       \<and> get_incidents big dbSelect db q = get_incidents big dbSelect db (q(k := None))"
  using assms codes_query_empty [of q k] neighborhoods_query_empty [of q k]
    incidents_query_empty [of q k big]
  by (simp add: get_codes_def get_neighborhoods_def get_incidents_def)

theorem empty_parameter_as_absent_witness:
  "empty_code (lit ''code'') = Some (Str [])
   \<and> codes_query empty_code
       = Inr (lit ''SELECT code, incident_type FROM Codes ORDER BY code'', [])
   \<and> get_codes mock_codes_select codes_table empty_code
       = get_codes mock_codes_select codes_table Map.empty
   \<and> get_codes mock_codes_select codes_table Map.empty
       = (200, Json (Arr [Obj [(lit ''code'', Number (lit ''100'')), (lit ''type'', Str (lit ''Murder''))],
                          Obj [(lit ''code'', Number (lit ''600'')), (lit ''type'', Str (lit ''Theft''))]]))"
proof -
  have h: "empty_code (lit ''code'') = Some (Str [])"
    by (simp add: empty_code_def)
  have e: "empty_code(lit ''code'' := None) = Map.empty"
    by (simp add: empty_code_def)
  have c: "codes_query Map.empty
     = Inr (lit ''SELECT code, incident_type FROM Codes ORDER BY code'', [])"
    by (simp add: codes_query_def codes_select_def get_prop_def)
  have g: "get_codes mock_codes_select codes_table Map.empty
       = (200, Json (Arr [Obj [(lit ''code'', Number (lit ''100'')), (lit ''type'', Str (lit ''Murder''))],
                          Obj [(lit ''code'', Number (lit ''600'')), (lit ''type'', Str (lit ''Theft''))]]))"
    using c by (simp add: get_codes_def mock_codes_select_def codes_table_def column_def)
  from empty_parameter_as_absent
         [of empty_code "lit ''code''" decimal mock_codes_select codes_table, OF h]
  show ?thesis
    unfolding e using h c g by simp
qed

subsection \<open>The existence check of the write handlers\<close>

lemma mock_check_stored:
  "mock_select [stored_row] checkQuery [get_prop existing_body (lit ''case_number'')]
   = Inr [[(lit ''case_number'', Str (lit ''23000001''))]]"
  by (simp add: mock_select_def existing_body_def get_prop_def stored_row_def mock_matches_def)

lemma mock_check_new:
  "mock_select [stored_row] checkQuery [get_prop new_body (lit ''case_number'')] = Inr []"
  by (simp add: mock_select_def new_body_def get_prop_def stored_row_def mock_matches_def)

text \<open>
  C4. PUT /new-incident with a case number the check finds (the select on
  \<^verbatim>\<open>case_number = ?\<close> returns a row) answers 500 "Case number already exists" and
  writes nothing: the database is the one the request found, whatever \<open>dbRun\<close> would do.
\<close>

theorem new_incident_existing_case_number:
  assumes "dbSelect db checkQuery [get_prop body (lit ''case_number'')] = Inr existing"
    and "existing \<noteq> []"
  shows "put_new_incident dbSelect dbRun db (Some body)
         = ((500, Txt (lit ''Case number already exists'')), db)"
  using assms by (simp add: put_new_incident_def)

theorem new_incident_existing_case_number_witness:
  "mock_select [stored_row] checkQuery [get_prop existing_body (lit ''case_number'')]
     = Inr [[(lit ''case_number'', Str (lit ''23000001''))]]
   \<and> put_new_incident mock_select mock_run [stored_row] (Some existing_body)
     = ((500, Txt (lit ''Case number already exists'')), [stored_row])"
proof -
  have h: "mock_select [stored_row] checkQuery [get_prop existing_body (lit ''case_number'')]
           = Inr [[(lit ''case_number'', Str (lit ''23000001''))]]"
    by (rule mock_check_stored)
  show ?thesis
    using h new_incident_existing_case_number
            [where dbSelect = mock_select and db = "[stored_row]" and body = existing_body
               and dbRun = mock_run, OF h]
    by simp
qed

text \<open>
  C5. DELETE /remove-incident with a case number the check does not find (the select
  returns no row) answers 500 "Case number does not exist" and runs no delete: the
  database is the one the request found, whatever \<open>dbRun\<close> would do.
\<close>

theorem remove_incident_missing_case_number:
  assumes "dbSelect db checkQuery [get_prop body (lit ''case_number'')] = Inr []"
  shows "delete_remove_incident dbSelect dbRun db (Some body)
         = ((500, Txt (lit ''Case number does not exist'')), db)"
  using assms by (simp add: delete_remove_incident_def)

theorem remove_incident_missing_case_number_witness:
  "mock_select [stored_row] checkQuery [get_prop new_body (lit ''case_number'')] = Inr []
   \<and> delete_remove_incident mock_select mock_run [stored_row] (Some new_body)
     = ((500, Txt (lit ''Case number does not exist'')), [stored_row])"
proof -
  have h: "mock_select [stored_row] checkQuery [get_prop new_body (lit ''case_number'')] = Inr []"
    by (rule mock_check_new)
  show ?thesis
    using h remove_incident_missing_case_number
            [where dbSelect = mock_select and db = "[stored_row]" and body = new_body
               and dbRun = mock_run, OF h]
    by simp
qed

subsection \<open>The store on the statements of the handlers\<close>

lemma strip_prefix_append: "strip_prefix p (p @ x) = Some x"
  by (induction p) simp_all

lemma strip_suffix_append: "strip_suffix s (x @ s) = Some x"
  by (simp add: strip_suffix_def strip_prefix_append)

lemma select_where_text:
  "select_where cond (where_text clauses) params rows = Inr (rows_where cond clauses params rows)"
proof (cases "clauses = []")
  case True
  then show ?thesis by (simp add: select_where_def where_text_def rows_where_def)
next
  case False
  have "strip_prefix (lit '' WHERE '') (lit '' WHERE '' @ x) = Some x" for x :: jsstring
    by (rule strip_prefix_append)
  with False show ?thesis
    by (simp add: select_where_def where_text_def rows_where_def)
qed

lemma engine_codes:
  "engine_select E db (codes_select @ where_text clauses @ lit '' ORDER BY code'') params
   = Inr (map code_result
            (sort_key code_no (rows_where (where_codes E) clauses params (db_codes db))))"
proof -
  have p: "strip_prefix (lit ''SELECT code, incident_type FROM Codes'')
             (codes_select @ x) = Some x" for x
    unfolding codes_select_def by (rule strip_prefix_append)
  have s: "strip_suffix (lit '' ORDER BY code'') (where_text clauses @ lit '' ORDER BY code'')
           = Some (where_text clauses)"
    by (rule strip_suffix_append)
  show ?thesis
    by (simp only: engine_select_def p s option.case select_where_text sum.case)
qed

lemma engine_neighborhoods:
  "engine_select E db
     (neighborhoods_select @ where_text clauses @ lit '' ORDER BY neighborhood_number'') params
   = Inr (map neighborhood_result
            (sort_key neighborhood_no
               (rows_where (where_neighborhoods E) clauses params (db_neighborhoods db))))"
proof -
  have n: "strip_prefix (lit ''SELECT code, incident_type FROM Codes'')
             (neighborhoods_select @ x) = None" for x
    by (simp add: neighborhoods_select_def)
  have p: "strip_prefix (lit ''SELECT neighborhood_number, neighborhood_name FROM Neighborhoods'')
             (neighborhoods_select @ x) = Some x" for x
    unfolding neighborhoods_select_def by (rule strip_prefix_append)
  have s: "strip_suffix (lit '' ORDER BY neighborhood_number'')
             (where_text clauses @ lit '' ORDER BY neighborhood_number'')
           = Some (where_text clauses)"
    by (rule strip_suffix_append)
  show ?thesis
    by (simp only: engine_select_def n p s option.case select_where_text sum.case)
qed

lemma digits_all_dec: "list_all is_dec (digits n)"
proof (induction n rule: digits.induct)
  case (1 n)
  show ?case
  proof (cases "n < 10")
    case True
    then show ?thesis by (simp add: digits.simps [of n] is_dec_def)
  next
    case False
    have "n mod 10 < 10" by simp
    then have "is_dec (48 + n mod 10)" unfolding is_dec_def by linarith
    with False 1 show ?thesis by (simp add: digits.simps [of n])
  qed
qed

lemma digits_nonempty: "digits n \<noteq> []"
  by (simp add: digits.simps [of n])

lemma digit_value_dec: "d < 10 \<Longrightarrow> digit_value (48 + d) = Some d"
  by (simp add: digit_value_def)

lemma digits_value_snoc:
  "digits_value R (Z @ [c]) = digits_value R Z * R + (case digit_value c of None \<Rightarrow> 0 | Some d \<Rightarrow> d)"
  by (simp add: digits_value_def)

lemma digits_value_digits: "digits_value 10 (digits n) = n"
proof (induction n rule: digits.induct)
  case (1 n)
  show ?case
  proof (cases "n < 10")
    case True
    then show ?thesis
      by (simp add: digits.simps [of n] digits_value_def digit_value_dec)
  next
    case False
    with 1 have "digits_value 10 (digits (n div 10)) = n div 10" by simp
    with False show ?thesis
      by (simp add: digits.simps [of n] digits_value_snoc digit_value_dec)
  qed
qed

lemma read_limit_digits: "read_limit (digits n) = Some (Some n)"
  by (simp add: read_limit_def digits_nonempty digits_all_dec digits_value_digits)

lemma read_limit_minus: "read_limit (45 # digits n) = Some None"
  by (simp add: read_limit_def digits_nonempty digits_all_dec is_dec_def)

lemma limit_chars_digits: "\<forall>c \<in> set (digits n). is_limit_char c"
  using digits_all_dec [of n] by (auto simp add: list_all_iff is_limit_char_def)

lemma number_text_safe:
  assumes "\<bar>n\<bar> \<le> 2 ^ 53 - 1"
  shows "number_text big (Integer n) = decimal n"
  using assms by (simp add: number_text_def decimal_def)

lemma read_limit_decimal: "read_limit (decimal n) = Some (limit_cap n)"
  by (simp add: decimal_def limit_cap_def read_limit_digits read_limit_minus)

lemma limit_chars_decimal: "\<forall>c \<in> set (decimal n). is_limit_char c"
  using limit_chars_digits by (auto simp add: decimal_def is_limit_char_def)

lemma take_while_stop:
  "\<forall>c \<in> set xs. P c \<Longrightarrow> \<not> P y \<Longrightarrow> takeWhile P (xs @ y # ys) = xs"
  by (induction xs) auto

lemma take_while_tail:
  assumes "\<forall>c \<in> set num. is_limit_char c"
  shows "rev (takeWhile is_limit_char (rev (x @ lit '' LIMIT '' @ num))) = num"
proof -
  have r: "rev (x @ lit '' LIMIT '' @ num) = rev num @ 32 # (rev (lit '' LIMIT'') @ rev x)"
    by simp
  have "\<not> is_limit_char 32"
    by (simp add: is_limit_char_def is_dec_def)
  moreover have "\<forall>c \<in> set (rev num). is_limit_char c"
    using assms by simp
  ultimately have "takeWhile is_limit_char (rev num @ 32 # (rev (lit '' LIMIT'') @ rev x))
                   = rev num"
    by (rule take_while_stop [rotated])
  then show ?thesis unfolding r by simp
qed

lemma engine_feed_text:
  assumes "\<forall>c \<in> set num. is_limit_char c" and "read_limit num = Some cap"
  shows "engine_feed E db
           (where_text clauses @ lit '' ORDER BY date_time DESC'' @ lit '' LIMIT '' @ num) params
         = Inr (map (incident_result E)
                  (cap_rows cap
                     (rev (sort_key row_date_time
                             (rows_where (where_incidents E) clauses params (db_incidents db))))))"
proof -
  let ?pre = "where_text clauses @ lit '' ORDER BY date_time DESC''"
  let ?rest = "?pre @ lit '' LIMIT '' @ num"
  have n: "rev (takeWhile is_limit_char (rev ?rest)) = num"
    using take_while_tail [OF assms(1), of ?pre] by simp
  have b: "take (length ?rest - length num) ?rest
           = where_text clauses @ lit '' ORDER BY date_time DESC LIMIT ''"
    by simp
  have s: "strip_suffix (lit '' ORDER BY date_time DESC LIMIT '')
             (where_text clauses @ lit '' ORDER BY date_time DESC LIMIT '')
           = Some (where_text clauses)"
    by (rule strip_suffix_append)
  have "engine_feed E db ?rest params
        = Inr (map (incident_result E)
                  (cap_rows cap
                     (rev (sort_key row_date_time
                             (rows_where (where_incidents E) clauses params (db_incidents db))))))"
    unfolding engine_feed_def Let_def n b
    by (simp only: s assms(2) option.case select_where_text sum.case)
  then show ?thesis by simp
qed

lemma engine_incidents:
  assumes "\<forall>c \<in> set num. is_limit_char c" and "read_limit num = Some cap"
  shows "engine_select E db
           (incidents_select @ where_text clauses @ lit '' ORDER BY date_time DESC''
              @ lit '' LIMIT '' @ num) params
         = Inr (map (incident_result E)
                  (cap_rows cap
                     (rev (sort_key row_date_time
                             (rows_where (where_incidents E) clauses params (db_incidents db))))))"
proof -
  have c: "strip_prefix (lit ''SELECT code, incident_type FROM Codes'')
             (incidents_select @ x) = None" for x
    by (simp add: incidents_select_def)
  have n: "strip_prefix (lit ''SELECT neighborhood_number, neighborhood_name FROM Neighborhoods'')
             (incidents_select @ x) = None" for x
    by (simp add: incidents_select_def)
  have p: "strip_prefix feed_columns (incidents_select @ x) = Some x" for x
    unfolding feed_columns_def incidents_select_def by (rule strip_prefix_append)
  show ?thesis
    by (simp only: engine_select_def c n p option.case engine_feed_text [OF assms])
qed

lemma engine_check:
  "engine_select E db checkQuery [v]
   = Inr (map (\<lambda>r. [(lit ''case_number'', row_case_number r)])
            (filter (where_incidents E (lit ''case_number = ?'') [v]) (db_incidents db)))"
  by (simp add: engine_select_def checkQuery_def feed_columns_def)

lemma engine_delete:
  "engine_run E db deleteQuery [v]
   = Inr (db\<lparr>db_incidents :=
            filter (\<lambda>r. \<not> where_incidents E (lit ''case_number = ?'') [v] r) (db_incidents db)\<rparr>)"
  by (simp add: engine_run_def deleteQuery_def insert_text_def)

lemma engine_insert:
  "engine_run E db insertQuery [cn, Str dt, c, i, g, n, b]
   = Inr (db\<lparr>db_incidents := db_incidents db @
            [\<lparr>row_case_number = cn, row_date_time = dt, row_code = c,
              row_incident = i, row_police_grid = g,
              row_neighborhood_number = n, row_block = b\<rparr>]\<rparr>)"
  by (simp add: engine_run_def insertQuery_def insert_text_def)

lemma read_timestamp_full:
  assumes "valid_date d" and "valid_time t"
  shows "read_timestamp (d @ lit ''T'' @ t) = Some (d, t)"
  using assms by (simp add: read_timestamp_def valid_date_def)

lemma valid_time_not_hm: "valid_hm t \<Longrightarrow> \<not> valid_time t"
  by (simp add: valid_time_def valid_hm_def)

lemma read_timestamp_short:
  assumes "valid_date d" and "valid_hm t"
  shows "read_timestamp (d @ lit ''T'' @ t) = Some (d, t @ lit '':00'')"
  using assms valid_time_not_hm [of t] by (simp add: read_timestamp_def valid_date_def)

lemma code_object_eq:
  "Obj [(lit ''code'', column (code_result r) (lit ''code'')),
        (lit ''type'', column (code_result r) (lit ''incident_type''))] = code_object r"
  by (simp add: code_object_def code_result_def column_def)

lemma neighborhood_object_eq:
  "Obj [(lit ''id'', column (neighborhood_result r) (lit ''neighborhood_number'')),
        (lit ''name'', column (neighborhood_result r) (lit ''neighborhood_name''))]
   = neighborhood_object r"
  by (simp add: neighborhood_object_def neighborhood_result_def column_def)

lemma incident_object_eq:
  "Obj (map (\<lambda>k. (k, column (incident_result E r) k)) incident_fields) = incident_object E r"
  by (simp add: incident_object_def incident_result_def incident_fields_def column_def)

subsection \<open>The order of the results\<close>

lemma get_codes_engine:
  assumes "string_or_absent (get_prop q (lit ''code''))"
  shows "get_codes (engine_select E) db q
         = (200, Json (Arr (map code_object
              (sort_key code_no
                 (rows_where (where_codes E)
                    (in_clause (lit ''code'') (elements (get_prop q (lit ''code''))))
                    (map Str (elements (get_prop q (lit ''code'')))) (db_codes db))))))"
proof -
  have q: "codes_query q
           = Inr (codes_select
                    @ where_text (in_clause (lit ''code'') (elements (get_prop q (lit ''code''))))
                    @ lit '' ORDER BY code'',
                  map Str (elements (get_prop q (lit ''code''))))"
    using assms by (simp only: codes_query_form if_True)
  show ?thesis
    unfolding get_codes_def q
    by (simp only: sum.case prod.case engine_codes list.map_comp comp_def code_object_eq)
qed

lemma get_codes_throws:
  assumes "\<not> string_or_absent (get_prop q (lit ''code''))"
  shows "get_codes dbSelect db q = (500, Txt (lit ''Error retrieving codes''))"
  using assms by (simp add: get_codes_def codes_query_form)

lemma get_neighborhoods_engine:
  assumes "string_or_absent (get_prop q (lit ''id''))"
  shows "get_neighborhoods (engine_select E) db q
         = (200, Json (Arr (map neighborhood_object
              (sort_key neighborhood_no
                 (rows_where (where_neighborhoods E)
                    (in_clause (lit ''neighborhood_number'') (elements (get_prop q (lit ''id''))))
                    (map Str (elements (get_prop q (lit ''id'')))) (db_neighborhoods db))))))"
proof -
  have q: "neighborhoods_query q
           = Inr (neighborhoods_select
                    @ where_text (in_clause (lit ''neighborhood_number'')
                                    (elements (get_prop q (lit ''id''))))
                    @ lit '' ORDER BY neighborhood_number'',
                  map Str (elements (get_prop q (lit ''id''))))"
    using assms by (simp only: neighborhoods_query_form if_True)
  show ?thesis
    unfolding get_neighborhoods_def q
    by (simp only: sum.case prod.case engine_neighborhoods list.map_comp comp_def
          neighborhood_object_eq)
qed

lemma get_neighborhoods_throws:
  assumes "\<not> string_or_absent (get_prop q (lit ''id''))"
  shows "get_neighborhoods dbSelect db q = (500, Txt (lit ''Error retrieving neighborhoods''))"
  using assms by (simp add: get_neighborhoods_def neighborhoods_query_form)

lemma get_incidents_engine:
  assumes "string_or_absent (get_prop q (lit ''code''))"
    and "string_or_absent (get_prop q (lit ''grid''))"
    and "string_or_absent (get_prop q (lit ''neighborhood''))"
    and "limit_of (get_prop q (lit ''limit'')) = Inr (Integer n)"
    and "\<bar>n\<bar> \<le> 2 ^ 53 - 1"
  shows "get_incidents big (engine_select E) db q
         = (200, Json (Arr (map (incident_object E)
              (cap_rows (limit_cap n)
                 (rev (sort_key row_date_time
                         (rows_where (where_incidents E) (filter_clauses q) (filter_params q)
                            (db_incidents db))))))))"
proof -
  have q: "incidents_query big q
         = Inr (incidents_select @ where_text (filter_clauses q)
                  @ lit '' ORDER BY date_time DESC'' @ lit '' LIMIT '' @ decimal n,
                filter_params q)"
    using incidents_query_ok [OF assms(1-4), of big] number_text_safe [OF assms(5), of big]
    by simp
  have e: "engine_select E db
           (incidents_select @ where_text (filter_clauses q) @ lit '' ORDER BY date_time DESC''
              @ lit '' LIMIT '' @ decimal n) (filter_params q)
         = Inr (map (incident_result E)
                  (cap_rows (limit_cap n)
                     (rev (sort_key row_date_time
                             (rows_where (where_incidents E) (filter_clauses q) (filter_params q)
                                (db_incidents db))))))"
    by (rule engine_incidents [OF limit_chars_decimal read_limit_decimal])
  show ?thesis
    unfolding get_incidents_def q
    by (simp only: sum.case prod.case e list.map_comp comp_def incident_object_eq)
qed

lemma sorted_capped:
  "sorted (rev (map f (cap_rows cap (rev (sort_key f xs)))))"
proof (cases cap)
  case None
  then show ?thesis by (simp add: cap_rows_def rev_map)
next
  case (Some k)
  have "rev (map f (take k (rev (sort_key f xs))))
        = drop (length xs - k) (map f (sort_key f xs))"
    by (simp add: rev_map rev_take drop_map)
  then show ?thesis using Some by (simp add: cap_rows_def sorted_wrt_drop)
qed

lemma engine_feed_nan:
  "engine_feed E db (pre @ lit '' LIMIT NaN'') params = Inl StoreError"
proof -
  have n: "rev (takeWhile is_limit_char (rev (pre @ lit '' LIMIT NaN''))) = []"
    by (simp add: is_limit_char_def is_dec_def)
  have s: "strip_suffix (lit '' ORDER BY date_time DESC LIMIT '') (pre @ lit '' LIMIT NaN'') = None"
    by (simp add: strip_suffix_def)
  show ?thesis
    unfolding engine_feed_def Let_def n
    using s by simp
qed

lemma engine_incidents_nan:
  "engine_select E db
     (incidents_select @ where_text clauses @ lit '' ORDER BY date_time DESC''
        @ lit '' LIMIT '' @ lit ''NaN'') params
   = Inl StoreError"
proof -
  have c: "strip_prefix (lit ''SELECT code, incident_type FROM Codes'')
             (incidents_select @ x) = None" for x
    by (simp add: incidents_select_def)
  have n: "strip_prefix (lit ''SELECT neighborhood_number, neighborhood_name FROM Neighborhoods'')
             (incidents_select @ x) = None" for x
    by (simp add: incidents_select_def)
  have p: "strip_prefix feed_columns (incidents_select @ x) = Some x" for x
    unfolding feed_columns_def incidents_select_def by (rule strip_prefix_append)
  have f: "engine_feed E db
             (where_text clauses @ lit '' ORDER BY date_time DESC'' @ lit '' LIMIT '' @ lit ''NaN'')
             params = Inl StoreError"
    using engine_feed_nan [of E db "where_text clauses @ lit '' ORDER BY date_time DESC''" params]
    by simp
  show ?thesis
    by (simp only: engine_select_def c n p option.case f)
qed

lemma get_incidents_throws:
  assumes "\<not> (string_or_absent (get_prop q (lit ''code''))
               \<and> string_or_absent (get_prop q (lit ''grid''))
               \<and> string_or_absent (get_prop q (lit ''neighborhood'')))
           \<or> (\<exists>e. limit_of (get_prop q (lit ''limit'')) = Inl e)"
  shows "get_incidents big dbSelect db q = (500, Txt (lit ''Error retrieving incidents''))"
proof -
  from assms obtain e' where "incidents_query big q = Inl e'"
    using incidents_query_error [of q _ big] by blast
  then show ?thesis by (simp add: get_incidents_def)
qed

lemma get_incidents_nan:
  assumes "string_or_absent (get_prop q (lit ''code''))"
    and "string_or_absent (get_prop q (lit ''grid''))"
    and "string_or_absent (get_prop q (lit ''neighborhood''))"
    and "limit_of (get_prop q (lit ''limit'')) = Inr NaN"
  shows "get_incidents big (engine_select E) db q = (500, Txt (lit ''Error retrieving incidents''))"
proof -
  have q: "incidents_query big q
         = Inr (incidents_select @ where_text (filter_clauses q)
                  @ lit '' ORDER BY date_time DESC'' @ lit '' LIMIT '' @ lit ''NaN'',
                filter_params q)"
    using incidents_query_ok [OF assms(1-4), of big] by (simp add: number_text_def)
  show ?thesis
    unfolding get_incidents_def q
    by (simp only: sum.case prod.case engine_incidents_nan)
qed

text \<open>
  C8: the order of the results is fixed, whatever the filters. For every request whose
  list filters are strings or absent, and every table, \<^verbatim>\<open>GET /codes\<close> answers 200 with
  the rows its filter selects in ascending order of the code, \<^verbatim>\<open>GET /neighborhoods\<close>
  answers 200 with the rows its filter selects in ascending order of the neighborhood
  number, and \<^verbatim>\<open>GET /incidents\<close>, when the limit is a number the statement can carry,
  answers 200 with the rows its filters select in descending order of the stored
  timestamp, cut at the limit. The filters decide which rows are returned and never
  their order: each list of rows is the selected rows sorted by the same key, and is
  sorted. A request with a list filter that is present and not a string, or with a
  limit that cannot be converted or does not parse, is answered 500 and returns no rows.
\<close>

theorem results_in_fixed_order:
  "(string_or_absent (get_prop q (lit ''code''))
      \<longrightarrow> (\<exists>rs. get_codes (engine_select E) db q = (200, Json (Arr (map code_object rs)))
              \<and> rs = sort_key code_no
                       (rows_where (where_codes E)
                          (in_clause (lit ''code'') (elements (get_prop q (lit ''code''))))
                          (map Str (elements (get_prop q (lit ''code'')))) (db_codes db))
              \<and> sorted (map code_no rs)))
   \<and> (\<not> string_or_absent (get_prop q (lit ''code''))
      \<longrightarrow> get_codes (engine_select E) db q = (500, Txt (lit ''Error retrieving codes'')))
   \<and> (string_or_absent (get_prop q (lit ''id''))
      \<longrightarrow> (\<exists>rs. get_neighborhoods (engine_select E) db q
                   = (200, Json (Arr (map neighborhood_object rs)))
              \<and> rs = sort_key neighborhood_no
                       (rows_where (where_neighborhoods E)
                          (in_clause (lit ''neighborhood_number'')
                             (elements (get_prop q (lit ''id''))))
                          (map Str (elements (get_prop q (lit ''id'')))) (db_neighborhoods db))
              \<and> sorted (map neighborhood_no rs)))
   \<and> (\<not> string_or_absent (get_prop q (lit ''id''))
      \<longrightarrow> get_neighborhoods (engine_select E) db q
          = (500, Txt (lit ''Error retrieving neighborhoods'')))
   \<and> (string_or_absent (get_prop q (lit ''code''))
        \<and> string_or_absent (get_prop q (lit ''grid''))
        \<and> string_or_absent (get_prop q (lit ''neighborhood''))
        \<and> limit_of (get_prop q (lit ''limit'')) = Inr (Integer n) \<and> \<bar>n\<bar> \<le> 2 ^ 53 - 1
      \<longrightarrow> (\<exists>rs. get_incidents big (engine_select E) db q
                   = (200, Json (Arr (map (incident_object E) rs)))
              \<and> rs = cap_rows (limit_cap n)
                       (rev (sort_key row_date_time
                               (rows_where (where_incidents E) (filter_clauses q)
                                  (filter_params q) (db_incidents db))))
              \<and> sorted (rev (map row_date_time rs))))
   \<and> (\<not> (string_or_absent (get_prop q (lit ''code''))
           \<and> string_or_absent (get_prop q (lit ''grid''))
           \<and> string_or_absent (get_prop q (lit ''neighborhood'')))
        \<or> (\<exists>e. limit_of (get_prop q (lit ''limit'')) = Inl e)
        \<or> limit_of (get_prop q (lit ''limit'')) = Inr NaN
      \<longrightarrow> get_incidents big (engine_select E) db q
          = (500, Txt (lit ''Error retrieving incidents'')))"
proof (intro conjI impI)
  assume "string_or_absent (get_prop q (lit ''code''))"
  then show "\<exists>rs. get_codes (engine_select E) db q = (200, Json (Arr (map code_object rs)))
              \<and> rs = sort_key code_no
                       (rows_where (where_codes E)
                          (in_clause (lit ''code'') (elements (get_prop q (lit ''code''))))
                          (map Str (elements (get_prop q (lit ''code'')))) (db_codes db))
              \<and> sorted (map code_no rs)"
    using get_codes_engine [of q E db] by simp
next
  assume "\<not> string_or_absent (get_prop q (lit ''code''))"
  then show "get_codes (engine_select E) db q = (500, Txt (lit ''Error retrieving codes''))"
    by (rule get_codes_throws)
next
  assume "string_or_absent (get_prop q (lit ''id''))"
  then show "\<exists>rs. get_neighborhoods (engine_select E) db q
                   = (200, Json (Arr (map neighborhood_object rs)))
              \<and> rs = sort_key neighborhood_no
                       (rows_where (where_neighborhoods E)
                          (in_clause (lit ''neighborhood_number'')
                             (elements (get_prop q (lit ''id''))))
                          (map Str (elements (get_prop q (lit ''id'')))) (db_neighborhoods db))
              \<and> sorted (map neighborhood_no rs)"
    using get_neighborhoods_engine [of q E db] by simp
next
  assume "\<not> string_or_absent (get_prop q (lit ''id''))"
  then show "get_neighborhoods (engine_select E) db q
          = (500, Txt (lit ''Error retrieving neighborhoods''))"
    by (rule get_neighborhoods_throws)
next
  assume a: "string_or_absent (get_prop q (lit ''code''))
        \<and> string_or_absent (get_prop q (lit ''grid''))
        \<and> string_or_absent (get_prop q (lit ''neighborhood''))
        \<and> limit_of (get_prop q (lit ''limit'')) = Inr (Integer n) \<and> \<bar>n\<bar> \<le> 2 ^ 53 - 1"
  let ?rs = "cap_rows (limit_cap n)
                       (rev (sort_key row_date_time
                               (rows_where (where_incidents E) (filter_clauses q)
                                  (filter_params q) (db_incidents db))))"
  from a have "get_incidents big (engine_select E) db q
                   = (200, Json (Arr (map (incident_object E) ?rs)))"
    using get_incidents_engine [of q n big E db] by blast
  moreover have "sorted (rev (map row_date_time ?rs))"
    by (rule sorted_capped)
  ultimately show "\<exists>rs. get_incidents big (engine_select E) db q
                   = (200, Json (Arr (map (incident_object E) rs)))
              \<and> rs = cap_rows (limit_cap n)
                       (rev (sort_key row_date_time
                               (rows_where (where_incidents E) (filter_clauses q)
                                  (filter_params q) (db_incidents db))))
              \<and> sorted (rev (map row_date_time rs))"
    by blast
next
  assume a: "\<not> (string_or_absent (get_prop q (lit ''code''))
           \<and> string_or_absent (get_prop q (lit ''grid''))
           \<and> string_or_absent (get_prop q (lit ''neighborhood'')))
        \<or> (\<exists>e. limit_of (get_prop q (lit ''limit'')) = Inl e)
        \<or> limit_of (get_prop q (lit ''limit'')) = Inr NaN"
  show "get_incidents big (engine_select E) db q = (500, Txt (lit ''Error retrieving incidents''))"
  proof (cases "string_or_absent (get_prop q (lit ''code''))
           \<and> string_or_absent (get_prop q (lit ''grid''))
           \<and> string_or_absent (get_prop q (lit ''neighborhood''))
           \<and> limit_of (get_prop q (lit ''limit'')) = Inr NaN")
    case True
    then show ?thesis using get_incidents_nan [of q big E db] by blast
  next
    case False
    with a have "\<not> (string_or_absent (get_prop q (lit ''code''))
               \<and> string_or_absent (get_prop q (lit ''grid''))
               \<and> string_or_absent (get_prop q (lit ''neighborhood'')))
           \<or> (\<exists>e. limit_of (get_prop q (lit ''limit'')) = Inl e)"
      by blast
    then show ?thesis by (rule get_incidents_throws)
  qed
qed

lemma decimals:
  "decimal 600 = lit ''600''" "decimal 100 = lit ''100''" "decimal 300 = lit ''300''"
  "decimal 7 = lit ''7''" "decimal 1 = lit ''1''" "decimal 4 = lit ''4''"
  by (simp_all add: decimal_def digits.simps)

theorem results_in_fixed_order_witness:
  "get_codes (engine_select example_sqlite) example_db (code_filter ''600,100'')
     = (200, Json (Arr [code_object \<lparr>code_no = 100, code_type = lit ''Murder''\<rparr>,
                        code_object \<lparr>code_no = 600, code_type = lit ''Theft''\<rparr>]))
   \<and> get_neighborhoods (engine_select example_sqlite) example_db (id_filter ''7,1'')
     = (200, Json (Arr [neighborhood_object
                          \<lparr>neighborhood_no = 1,
                            neighborhood_label = lit ''Conway/Battlecreek/Highwood''\<rparr>,
                        neighborhood_object
                          \<lparr>neighborhood_no = 7,
                            neighborhood_label = lit ''Thomas/Dale(Frogtown)''\<rparr>]))
   \<and> get_incidents decimal (engine_select example_sqlite) example_db (grid_filter ''87'')
     = (200, Json (Arr [incident_object example_sqlite later_row,
                        incident_object example_sqlite stored_row]))
   \<and> get_incidents decimal (engine_select example_sqlite) example_db (limit_only ''2'')
     = (200, Json (Arr [incident_object example_sqlite later_row,
                        incident_object example_sqlite new_row]))
   \<and> get_codes (engine_select example_sqlite) example_db repeated_code
     = (500, Txt (lit ''Error retrieving codes''))
   \<and> get_incidents decimal (engine_select example_sqlite) example_db bad_limit
     = (500, Txt (lit ''Error retrieving incidents''))"
proof -
  note t = results_in_fixed_order
  have c: "get_codes (engine_select example_sqlite) example_db (code_filter ''600,100'')
     = (200, Json (Arr [code_object \<lparr>code_no = 100, code_type = lit ''Murder''\<rparr>,
                        code_object \<lparr>code_no = 600, code_type = lit ''Theft''\<rparr>]))"
    using t [of "code_filter ''600,100''" example_sqlite example_db] decimals
    by (simp add: code_filter_def get_prop_def string_or_absent_def elements_def trim_def
          is_whitespace_def in_clause_def rows_where_def example_sqlite_def example_db_def)
  have n: "get_neighborhoods (engine_select example_sqlite) example_db (id_filter ''7,1'')
     = (200, Json (Arr [neighborhood_object
                          \<lparr>neighborhood_no = 1,
                            neighborhood_label = lit ''Conway/Battlecreek/Highwood''\<rparr>,
                        neighborhood_object
                          \<lparr>neighborhood_no = 7,
                            neighborhood_label = lit ''Thomas/Dale(Frogtown)''\<rparr>]))"
    using t [of "id_filter ''7,1''" example_sqlite example_db] decimals
    by (simp add: id_filter_def get_prop_def string_or_absent_def elements_def trim_def
          is_whitespace_def in_clause_def rows_where_def example_sqlite_def example_db_def)
  have g: "get_incidents decimal (engine_select example_sqlite) example_db (grid_filter ''87'')
     = (200, Json (Arr [incident_object example_sqlite later_row,
                        incident_object example_sqlite stored_row]))"
    using t [of "grid_filter ''87''" example_sqlite example_db 1000 decimal]
    by (simp add: grid_filter_def get_prop_def string_or_absent_def elements_def trim_def
          is_whitespace_def in_clause_def rows_where_def example_sqlite_def example_db_def
          limit_of_def filter_clauses_def filter_params_def date_clause_def date_param_def
          placeholders_def limit_cap_def cap_rows_def stored_row_def new_row_def later_row_def)
  have l: "get_incidents decimal (engine_select example_sqlite) example_db (limit_only ''2'')
     = (200, Json (Arr [incident_object example_sqlite later_row,
                        incident_object example_sqlite new_row]))"
    using t [of "limit_only ''2''" example_sqlite example_db 2 decimal]
    by (simp add: limit_only_def get_prop_def string_or_absent_def elements_def
          in_clause_def rows_where_def example_db_def
          limit_of_def filter_clauses_def filter_params_def date_clause_def date_param_def
          limit_cap_def cap_rows_def stored_row_def new_row_def later_row_def
          parseInt_def trim_start_def is_whitespace_def is_digit_def digit_value_def
          digits_value_def)
  have r: "get_codes (engine_select example_sqlite) example_db repeated_code
     = (500, Txt (lit ''Error retrieving codes''))"
    using t [of repeated_code example_sqlite example_db]
    by (simp add: repeated_code_def get_prop_def string_or_absent_def)
  have b: "get_incidents decimal (engine_select example_sqlite) example_db bad_limit
     = (500, Txt (lit ''Error retrieving incidents''))"
    using t [of bad_limit example_sqlite example_db _ decimal]
    by (simp add: bad_limit_def get_prop_def limit_of_def parseInt_def trim_start_def
          is_whitespace_def is_digit_def digit_value_def)
  from c n g l r b show ?thesis by blast
qed

subsection \<open>Deleting an incident\<close>

text \<open>
  C7: a \<^verbatim>\<open>DELETE /remove-incident\<close> whose case number is in the table (the condition
  \<^verbatim>\<open>case_number = ?\<close> selects a row for it) answers 200 "OK" and leaves the table
  without the rows that condition selects and with every other row, in place; the same
  request again answers 500 "Case number does not exist" and changes nothing.
\<close>

theorem remove_incident_existing_case_number:
  assumes "filter (where_incidents E (lit ''case_number = ?'')
                     [get_prop body (lit ''case_number'')]) (db_incidents db) \<noteq> []"
  shows "delete_remove_incident (engine_select E) (engine_run E) db (Some body)
         = ((200, Txt (lit ''OK'')),
            db\<lparr>db_incidents :=
                 filter (\<lambda>r. \<not> where_incidents E (lit ''case_number = ?'')
                                  [get_prop body (lit ''case_number'')] r) (db_incidents db)\<rparr>)
       \<and> delete_remove_incident (engine_select E) (engine_run E)
           (db\<lparr>db_incidents :=
                 filter (\<lambda>r. \<not> where_incidents E (lit ''case_number = ?'')
                                  [get_prop body (lit ''case_number'')] r) (db_incidents db)\<rparr>)
           (Some body)
         = ((500, Txt (lit ''Case number does not exist'')),
            db\<lparr>db_incidents :=
                 filter (\<lambda>r. \<not> where_incidents E (lit ''case_number = ?'')
                                  [get_prop body (lit ''case_number'')] r) (db_incidents db)\<rparr>)"
  using assms
  by (simp add: delete_remove_incident_def engine_check engine_delete)

theorem remove_incident_existing_case_number_witness:
  "filter (where_incidents example_sqlite (lit ''case_number = ?'')
             [get_prop existing_body (lit ''case_number'')]) (db_incidents example_db)
     = [stored_row]
   \<and> delete_remove_incident (engine_select example_sqlite) (engine_run example_sqlite)
       example_db (Some existing_body)
     = ((200, Txt (lit ''OK'')), example_db\<lparr>db_incidents := [new_row, later_row]\<rparr>)
   \<and> delete_remove_incident (engine_select example_sqlite) (engine_run example_sqlite)
       (example_db\<lparr>db_incidents := [new_row, later_row]\<rparr>) (Some existing_body)
     = ((500, Txt (lit ''Case number does not exist'')),
        example_db\<lparr>db_incidents := [new_row, later_row]\<rparr>)"
proof -
  have f: "filter (where_incidents example_sqlite (lit ''case_number = ?'')
             [get_prop existing_body (lit ''case_number'')]) (db_incidents example_db)
     = [stored_row]"
    by (simp add: example_sqlite_def example_db_def existing_body_def get_prop_def
          stored_row_def new_row_def later_row_def)
  have g: "filter (\<lambda>r. \<not> where_incidents example_sqlite (lit ''case_number = ?'')
             [get_prop existing_body (lit ''case_number'')] r) (db_incidents example_db)
     = [new_row, later_row]"
    by (simp add: example_sqlite_def example_db_def existing_body_def get_prop_def
          stored_row_def new_row_def later_row_def)
  have "filter (where_incidents example_sqlite (lit ''case_number = ?'')
             [get_prop existing_body (lit ''case_number'')]) (db_incidents example_db) \<noteq> []"
    unfolding f by simp
  from remove_incident_existing_case_number [OF this]
  show ?thesis unfolding g using f by simp
qed

subsection \<open>Creating an incident\<close>

lemma put_engine:
  assumes "filter (where_incidents E (lit ''case_number = ?'')
                     [get_prop body (lit ''case_number'')]) (db_incidents db) = []"
    and "to_string (get_prop body (lit ''date'')) = Inr d"
    and "to_string (get_prop body (lit ''time'')) = Inr t"
  shows "put_new_incident (engine_select E) (engine_run E) db (Some body)
         = ((200, Txt (lit ''OK'')),
            db\<lparr>db_incidents := db_incidents db @ [inserted_row body (d @ lit ''T'' @ t)]\<rparr>)"
  using assms
  by (simp add: put_new_incident_def engine_check dateTime_of_def engine_insert inserted_row_def)

lemma case_number_query_props:
  "get_prop (case_number_query v) (lit ''start_date'') = Undefined"
  "get_prop (case_number_query v) (lit ''end_date'') = Undefined"
  "get_prop (case_number_query v) (lit ''code'') = Undefined"
  "get_prop (case_number_query v) (lit ''grid'') = Undefined"
  "get_prop (case_number_query v) (lit ''neighborhood'') = Undefined"
  "get_prop (case_number_query v) (lit ''limit'') = Undefined"
  by (simp_all add: case_number_query_def get_prop_def)

lemma feed_engine:
  "get_incidents big (engine_select E) db (case_number_query v)
   = (200, Json (Arr (map (incident_object E)
        (take 1000 (rev (sort_key row_date_time (db_incidents db)))))))"
proof -
  have c: "filter_clauses (case_number_query v) = []"
    unfolding filter_clauses_def case_number_query_props
    by (simp add: date_clause_def in_clause_def elements_def)
  have p: "filter_params (case_number_query v) = []"
    unfolding filter_params_def case_number_query_props
    by (simp add: date_param_def elements_def)
  have "get_incidents big (engine_select E) db (case_number_query v)
        = (200, Json (Arr (map (incident_object E)
              (cap_rows (limit_cap 1000)
                 (rev (sort_key row_date_time
                         (rows_where (where_incidents E) (filter_clauses (case_number_query v))
                            (filter_params (case_number_query v)) (db_incidents db))))))))"
  proof (rule get_incidents_engine)
    show "string_or_absent (get_prop (case_number_query v) (lit ''code''))"
      unfolding case_number_query_props by (simp add: string_or_absent_def)
    show "string_or_absent (get_prop (case_number_query v) (lit ''grid''))"
      unfolding case_number_query_props by (simp add: string_or_absent_def)
    show "string_or_absent (get_prop (case_number_query v) (lit ''neighborhood''))"
      unfolding case_number_query_props by (simp add: string_or_absent_def)
    show "limit_of (get_prop (case_number_query v) (lit ''limit'')) = Inr (Integer 1000)"
      unfolding case_number_query_props by (simp add: limit_of_def)
    show "\<bar>1000 :: int\<bar> \<le> 2 ^ 53 - 1" by simp
  qed
  then show ?thesis
    unfolding c p by (simp add: rows_where_def limit_cap_def cap_rows_def)
qed

lemma new_row_in_feed:
  assumes "length rows < 1000"
  shows "r \<in> set (take 1000 (rev (sort_key f (rows @ [r]))))"
  using assms by simp

lemma read_back_full:
  assumes "valid_date d" and "valid_time t"
  shows "sql_date E (d @ lit ''T'' @ t) = Str d \<and> sql_time E (d @ lit ''T'' @ t) = Str t"
  using read_timestamp_full [OF assms] by (simp add: sql_date_def sql_time_def)

lemma read_back_short:
  assumes "valid_date d" and "valid_hm t"
  shows "sql_date E (d @ lit ''T'' @ t) = Str d
       \<and> sql_time E (d @ lit ''T'' @ t) = Str (t @ lit '':00'')"
  using read_timestamp_short [OF assms] by (simp add: sql_date_def sql_time_def)

text \<open>
  C6, as the code has it. A \<^verbatim>\<open>PUT /new-incident\<close> whose case number is not in the table
  and whose date and time convert to strings answers 200 "OK" and adds one row, holding
  the timestamp date + 'T' + time. \<^verbatim>\<open>GET /incidents\<close> has no filter on the case number:
  a following \<^verbatim>\<open>GET /incidents?case_number=v\<close> returns the whole table, newest first,
  cut at 1000 rows, and the new row is among them when the table held fewer than 1000
  rows. The date and time of the new row are read back as they were supplied when the
  date is \<^verbatim>\<open>YYYY-MM-DD\<close> and the time is \<^verbatim>\<open>HH:MM:SS\<close>; a time \<^verbatim>\<open>HH:MM\<close> is read back
  as \<^verbatim>\<open>HH:MM:00\<close>.
\<close>

theorem new_incident_read_back:
  assumes "filter (where_incidents E (lit ''case_number = ?'')
                     [get_prop body (lit ''case_number'')]) (db_incidents db) = []"
    and "to_string (get_prop body (lit ''date'')) = Inr d"
    and "to_string (get_prop body (lit ''time'')) = Inr t"
  shows "put_new_incident (engine_select E) (engine_run E) db (Some body)
         = ((200, Txt (lit ''OK'')),
            db\<lparr>db_incidents := db_incidents db @ [inserted_row body (d @ lit ''T'' @ t)]\<rparr>)
       \<and> get_incidents big (engine_select E)
           (db\<lparr>db_incidents := db_incidents db @ [inserted_row body (d @ lit ''T'' @ t)]\<rparr>)
           (case_number_query v)
         = (200, Json (Arr (map (incident_object E)
              (take 1000 (rev (sort_key row_date_time
                 (db_incidents db @ [inserted_row body (d @ lit ''T'' @ t)])))))))
       \<and> (length (db_incidents db) < 1000
            \<longrightarrow> inserted_row body (d @ lit ''T'' @ t)
                \<in> set (take 1000 (rev (sort_key row_date_time
                      (db_incidents db @ [inserted_row body (d @ lit ''T'' @ t)])))))
       \<and> (valid_date d \<and> valid_time t
            \<longrightarrow> column (incident_result E (inserted_row body (d @ lit ''T'' @ t))) (lit ''date'')
                = Str d
              \<and> column (incident_result E (inserted_row body (d @ lit ''T'' @ t))) (lit ''time'')
                = Str t)
       \<and> (valid_date d \<and> valid_hm t
            \<longrightarrow> column (incident_result E (inserted_row body (d @ lit ''T'' @ t))) (lit ''date'')
                = Str d
              \<and> column (incident_result E (inserted_row body (d @ lit ''T'' @ t))) (lit ''time'')
                = Str (t @ lit '':00''))"
proof -
  let ?new = "inserted_row body (d @ lit ''T'' @ t)"
  have dt: "column (incident_result E ?new) (lit ''date'') = sql_date E (d @ lit ''T'' @ t)"
           "column (incident_result E ?new) (lit ''time'') = sql_time E (d @ lit ''T'' @ t)"
    by (simp_all add: incident_result_def column_def inserted_row_def)
  have 1: "put_new_incident (engine_select E) (engine_run E) db (Some body)
         = ((200, Txt (lit ''OK'')), db\<lparr>db_incidents := db_incidents db @ [?new]\<rparr>)"
    by (rule put_engine [OF assms])
  have 2: "get_incidents big (engine_select E)
             (db\<lparr>db_incidents := db_incidents db @ [?new]\<rparr>) (case_number_query v)
         = (200, Json (Arr (map (incident_object E)
              (take 1000 (rev (sort_key row_date_time (db_incidents db @ [?new])))))))"
    using feed_engine [of big E "db\<lparr>db_incidents := db_incidents db @ [?new]\<rparr>" v] by simp
  have 3: "length (db_incidents db) < 1000
            \<longrightarrow> ?new \<in> set (take 1000 (rev (sort_key row_date_time (db_incidents db @ [?new]))))"
    by (rule impI) (rule new_row_in_feed)
  have 4: "valid_date d \<and> valid_time t
            \<longrightarrow> column (incident_result E ?new) (lit ''date'') = Str d
              \<and> column (incident_result E ?new) (lit ''time'') = Str t"
    unfolding dt using read_back_full by blast
  have 5: "valid_date d \<and> valid_hm t
            \<longrightarrow> column (incident_result E ?new) (lit ''date'') = Str d
              \<and> column (incident_result E ?new) (lit ''time'') = Str (t @ lit '':00'')"
    unfolding dt using read_back_short by blast
  from 1 2 3 4 5 show ?thesis by blast
qed

lemma fresh_body_props:
  "get_prop fresh_body (lit ''case_number'') = Str (lit ''24000005'')"
  "get_prop fresh_body (lit ''date'') = Str (lit ''2024-06-07'')"
  "get_prop fresh_body (lit ''time'') = Str (lit ''21:05:09'')"
  by (simp_all add: fresh_body_def get_prop_def)

lemma fresh_inserted: "inserted_row fresh_body (lit ''2024-06-07'' @ lit ''T'' @ lit ''21:05:09'')
                       = fresh_row"
  by (simp add: inserted_row_def fresh_body_def fresh_row_def get_prop_def)

theorem new_incident_read_back_witness:
  "filter (where_incidents example_sqlite (lit ''case_number = ?'')
             [get_prop fresh_body (lit ''case_number'')]) (db_incidents example_db) = []
   \<and> valid_date (lit ''2024-06-07'') \<and> valid_time (lit ''21:05:09'')
   \<and> put_new_incident (engine_select example_sqlite) (engine_run example_sqlite)
       example_db (Some fresh_body)
     = ((200, Txt (lit ''OK'')),
        example_db\<lparr>db_incidents := [stored_row, new_row, later_row, fresh_row]\<rparr>)
   \<and> get_incidents decimal (engine_select example_sqlite)
       (example_db\<lparr>db_incidents := [stored_row, new_row, later_row, fresh_row]\<rparr>)
       (case_number_query (Str (lit ''24000005'')))
     = (200, Json (Arr (map (incident_object example_sqlite)
                          [fresh_row, later_row, new_row, stored_row])))
   \<and> column (incident_result example_sqlite fresh_row) (lit ''date'') = Str (lit ''2024-06-07'')
   \<and> column (incident_result example_sqlite fresh_row) (lit ''time'') = Str (lit ''21:05:09'')"
proof -
  have nov: "filter (where_incidents example_sqlite (lit ''case_number = ?'')
             [get_prop fresh_body (lit ''case_number'')]) (db_incidents example_db) = []"
    by (simp add: example_sqlite_def example_db_def fresh_body_def get_prop_def
          stored_row_def new_row_def later_row_def)
  have d: "to_string (get_prop fresh_body (lit ''date'')) = Inr (lit ''2024-06-07'')"
    and t: "to_string (get_prop fresh_body (lit ''time'')) = Inr (lit ''21:05:09'')"
    unfolding fresh_body_props by simp_all
  have vd: "valid_date (lit ''2024-06-07'')"
    by (simp add: valid_date_def in_range_def two_digits_def is_dec_def)
  have vt: "valid_time (lit ''21:05:09'')"
    by (simp add: valid_time_def valid_hm_def in_range_def two_digits_def is_dec_def)
  have i: "db_incidents example_db = [stored_row, new_row, later_row]"
    by (simp add: example_db_def)
  have s: "take 1000 (rev (sort_key row_date_time [stored_row, new_row, later_row, fresh_row]))
           = [fresh_row, later_row, new_row, stored_row]"
    by (simp add: stored_row_def new_row_def later_row_def fresh_row_def)
  note th = new_incident_read_back [OF nov d t, of decimal "Str (lit ''24000005'')",
      unfolded fresh_inserted i append_Cons append_Nil s]
  from th vd vt nov show ?thesis
    by simp
qed

lemma short_inserted: "inserted_row short_body (lit ''2024-01-02'' @ lit ''T'' @ lit ''10:30'')
                       = short_row"
  by (simp add: inserted_row_def short_body_def short_row_def get_prop_def)

text \<open>
  Against C6 as stated (exactly one row, date and time equal to those supplied): after
  the body with time \<^verbatim>\<open>10:30\<close> is stored in a table of one row, the request for its
  case number returns both rows, and the time of the new row reads \<^verbatim>\<open>10:30:00\<close>.
\<close>

theorem read_back_differs_and_feed_unfiltered:
  "put_new_incident (engine_select example_sqlite) (engine_run example_sqlite)
       one_row_db (Some short_body)
     = ((200, Txt (lit ''OK'')), one_row_db\<lparr>db_incidents := [stored_row, short_row]\<rparr>)
   \<and> get_incidents decimal (engine_select example_sqlite)
       (one_row_db\<lparr>db_incidents := [stored_row, short_row]\<rparr>)
       (case_number_query (Str (lit ''24000002'')))
     = (200, Json (Arr [incident_object example_sqlite short_row,
                        incident_object example_sqlite stored_row]))
   \<and> get_prop short_body (lit ''time'') = Str (lit ''10:30'')
   \<and> column (incident_result example_sqlite short_row) (lit ''time'') = Str (lit ''10:30:00'')"
proof -
  have nov: "filter (where_incidents example_sqlite (lit ''case_number = ?'')
             [get_prop short_body (lit ''case_number'')]) (db_incidents one_row_db) = []"
    by (simp add: example_sqlite_def one_row_db_def short_body_def get_prop_def stored_row_def)
  have d: "to_string (get_prop short_body (lit ''date'')) = Inr (lit ''2024-01-02'')"
    and t: "to_string (get_prop short_body (lit ''time'')) = Inr (lit ''10:30'')"
    by (simp_all add: short_body_def get_prop_def)
  have i: "db_incidents one_row_db = [stored_row]"
    by (simp add: one_row_db_def)
  have 1: "put_new_incident (engine_select example_sqlite) (engine_run example_sqlite)
       one_row_db (Some short_body)
     = ((200, Txt (lit ''OK'')), one_row_db\<lparr>db_incidents := [stored_row, short_row]\<rparr>)"
    using put_engine [OF nov d t] unfolding short_inserted i by simp
  have s: "take 1000 (rev (sort_key row_date_time
                (db_incidents (one_row_db\<lparr>db_incidents := [stored_row, short_row]\<rparr>))))
           = [short_row, stored_row]"
    by (simp add: stored_row_def short_row_def)
  have 2: "get_incidents decimal (engine_select example_sqlite)
       (one_row_db\<lparr>db_incidents := [stored_row, short_row]\<rparr>)
       (case_number_query (Str (lit ''24000002'')))
     = (200, Json (Arr [incident_object example_sqlite short_row,
                        incident_object example_sqlite stored_row]))"
    using feed_engine [of decimal example_sqlite
        "one_row_db\<lparr>db_incidents := [stored_row, short_row]\<rparr>" "Str (lit ''24000002'')",
        unfolded s]
    by simp
  have 3: "get_prop short_body (lit ''time'') = Str (lit ''10:30'')"
    by (simp add: short_body_def get_prop_def)
  have 4: "column (incident_result example_sqlite short_row) (lit ''time'')
           = Str (lit ''10:30:00'')"
    by (simp add: incident_result_def column_def sql_time_def read_timestamp_def short_row_def
          valid_date_def valid_time_def valid_hm_def in_range_def two_digits_def is_dec_def)
  from 1 2 3 4 show ?thesis by blast
qed

lemma sparse_body_props:
  "get_prop sparse_body (lit ''case_number'') = Str (lit ''24000004'')"
  "get_prop sparse_body (lit ''date'') = Undefined"
  "get_prop sparse_body (lit ''time'') = Undefined"
  "get_prop sparse_body (lit ''code'') = Undefined"
  "get_prop sparse_body (lit ''incident'') = Undefined"
  "get_prop sparse_body (lit ''police_grid'') = Undefined"
  "get_prop sparse_body (lit ''neighborhood_number'') = Undefined"
  "get_prop sparse_body (lit ''block'') = Undefined"
  by (simp_all add: sparse_body_def get_prop_def)

lemma mock_check_sparse:
  "mock_select [stored_row] checkQuery [Str (lit ''24000004'')] = Inr []"
  by (simp add: mock_select_def stored_row_def mock_matches_def)

lemma dateTime_throws:
  "(\<exists>e. to_string date = Inl e) \<or> (\<exists>e. to_string time = Inl e)
   \<Longrightarrow> \<exists>e. dateTime_of date time = Inl e"
  by (auto simp add: dateTime_of_def split: sum.splits)

text \<open>
  C10, as the code has it. For a body whose case number the check does not find, the
  handler validates nothing. When the date and the time convert to strings, it runs the
  \<^verbatim>\<open>INSERT\<close> with the seven fields as they are, the second being the string
  date + 'T' + time, a missing date or time reading \<^verbatim>\<open>undefined\<close>, and answers by
  the outcome of the insert alone. When the conversion of the date or of the time
  throws, no insert is run, the database is unchanged and the answer is 500
  "Error inserting incident".
\<close>

theorem new_incident_inserts_unvalidated:
  assumes "dbSelect db checkQuery [get_prop body (lit ''case_number'')] = Inr []"
  shows "(\<forall>d t. to_string (get_prop body (lit ''date'')) = Inr d
              \<and> to_string (get_prop body (lit ''time'')) = Inr t
           \<longrightarrow> put_new_incident dbSelect dbRun db (Some body)
                = (case dbRun db insertQuery
                         [get_prop body (lit ''case_number''),
                          Str (d @ lit ''T'' @ t),
                          get_prop body (lit ''code''),
                          get_prop body (lit ''incident''),
                          get_prop body (lit ''police_grid''),
                          get_prop body (lit ''neighborhood_number''),
                          get_prop body (lit ''block'')] of
                     Inl e \<Rightarrow> ((500, Txt (lit ''Error inserting incident'')), db)
                   | Inr db' \<Rightarrow> ((200, Txt (lit ''OK'')), db'))
              \<and> (body (lit ''date'') = None \<longrightarrow> d = lit ''undefined'')
              \<and> (body (lit ''time'') = None \<longrightarrow> t = lit ''undefined''))
       \<and> ((\<exists>e. to_string (get_prop body (lit ''date'')) = Inl e)
            \<or> (\<exists>e. to_string (get_prop body (lit ''time'')) = Inl e)
           \<longrightarrow> put_new_incident dbSelect dbRun db (Some body)
                = ((500, Txt (lit ''Error inserting incident'')), db))"
proof (intro conjI allI impI)
  fix d t
  assume c: "to_string (get_prop body (lit ''date'')) = Inr d
              \<and> to_string (get_prop body (lit ''time'')) = Inr t"
  with assms show "put_new_incident dbSelect dbRun db (Some body)
                = (case dbRun db insertQuery
                         [get_prop body (lit ''case_number''),
                          Str (d @ lit ''T'' @ t),
                          get_prop body (lit ''code''),
                          get_prop body (lit ''incident''),
                          get_prop body (lit ''police_grid''),
                          get_prop body (lit ''neighborhood_number''),
                          get_prop body (lit ''block'')] of
                     Inl e \<Rightarrow> ((500, Txt (lit ''Error inserting incident'')), db)
                   | Inr db' \<Rightarrow> ((200, Txt (lit ''OK'')), db'))"
    by (simp add: put_new_incident_def dateTime_of_def)
  { assume "body (lit ''date'') = None"
    with c show "d = lit ''undefined''" by (auto simp add: get_prop_def) }
  { assume "body (lit ''time'') = None"
    with c show "t = lit ''undefined''" by (auto simp add: get_prop_def) }
next
  assume "(\<exists>e. to_string (get_prop body (lit ''date'')) = Inl e)
            \<or> (\<exists>e. to_string (get_prop body (lit ''time'')) = Inl e)"
  then obtain e where "dateTime_of (get_prop body (lit ''date'')) (get_prop body (lit ''time''))
                       = Inl e"
    using dateTime_throws by blast
  with assms show "put_new_incident dbSelect dbRun db (Some body)
                = ((500, Txt (lit ''Error inserting incident'')), db)"
    by (simp add: put_new_incident_def)
qed

lemma mock_check_any:
  "mock_select [stored_row] checkQuery [Str (lit ''24000003'')] = Inr []"
  by (simp add: mock_select_def stored_row_def mock_matches_def)

theorem new_incident_inserts_unvalidated_witness:
  "mock_select [stored_row] checkQuery [get_prop sparse_body (lit ''case_number'')] = Inr []
   \<and> sparse_body (lit ''date'') = None \<and> sparse_body (lit ''time'') = None
   \<and> put_new_incident mock_select mock_run [stored_row] (Some sparse_body)
       = ((200, Txt (lit ''OK'')), [stored_row, sparse_row])
   \<and> row_date_time sparse_row = lit ''undefinedTundefined''
   \<and> mock_select [stored_row] checkQuery [get_prop odd_time_body (lit ''case_number'')] = Inr []
   \<and> to_string (get_prop odd_time_body (lit ''time'')) = Inl TypeError
   \<and> put_new_incident mock_select mock_run [stored_row] (Some odd_time_body)
       = ((500, Txt (lit ''Error inserting incident'')), [stored_row])"
proof -
  have c1: "mock_select [stored_row] checkQuery [get_prop sparse_body (lit ''case_number'')]
            = Inr []"
    unfolding sparse_body_props by (rule mock_check_sparse)
  have u: "to_string (get_prop sparse_body (lit ''date'')) = Inr (lit ''undefined'')
           \<and> to_string (get_prop sparse_body (lit ''time'')) = Inr (lit ''undefined'')"
    unfolding sparse_body_props by simp
  have k: "odd_time_body (lit ''case_number'') = Some (Str (lit ''24000003''))"
    by (simp add: odd_time_body_def)
  have c2: "mock_select [stored_row] checkQuery [get_prop odd_time_body (lit ''case_number'')]
            = Inr []"
    using mock_check_any k by (simp add: get_prop_def)
  have th: "to_string (get_prop odd_time_body (lit ''time'')) = Inl TypeError"
    by (simp add: odd_time_body_def get_prop_def)
  have 1: "put_new_incident mock_select mock_run [stored_row] (Some sparse_body)
       = ((200, Txt (lit ''OK'')), [stored_row, sparse_row])"
    using new_incident_inserts_unvalidated
            [where dbSelect = mock_select and dbRun = mock_run and db = "[stored_row]"
               and body = sparse_body, OF c1] u
    unfolding sparse_body_props
    by (simp add: mock_run_def sparse_row_def)
  have 2: "put_new_incident mock_select mock_run [stored_row] (Some odd_time_body)
       = ((500, Txt (lit ''Error inserting incident'')), [stored_row])"
    using new_incident_inserts_unvalidated
            [where dbSelect = mock_select and dbRun = mock_run and db = "[stored_row]"
               and body = odd_time_body, OF c2] th
    by blast
  have 3: "sparse_body (lit ''date'') = None \<and> sparse_body (lit ''time'') = None"
    by (simp add: sparse_body_def)
  have 4: "row_date_time sparse_row = lit ''undefinedTundefined''"
    by (simp add: sparse_row_def)
  from c1 c2 th 1 2 3 4 show ?thesis by blast
qed

text \<open>
  Against C10 as stated (the insert proceeds for every body): a date that is an object
  with an own \<^verbatim>\<open>toString\<close> property cannot be converted, the concatenation throws,
  no insert is run and the answer is 500 "Error inserting incident".
\<close>

theorem new_incident_conversion_throws:
  "mock_select [stored_row] checkQuery [get_prop odd_body (lit ''case_number'')] = Inr []
   \<and> dateTime_of (get_prop odd_body (lit ''date'')) (get_prop odd_body (lit ''time''))
       = Inl TypeError
   \<and> put_new_incident mock_select mock_run [stored_row] (Some odd_body)
       = ((500, Txt (lit ''Error inserting incident'')), [stored_row])"
  by (simp add: put_new_incident_def odd_body_def get_prop_def dateTime_of_def mock_select_def
        stored_row_def mock_matches_def)

end
